theory Spec2Isabelle
  imports Main "HOL-Library.Word" "HOL-Library.AList" "HOL-Library.Char_ord"
    "HOL-Library.List_Lexorder" "HOL-Library.Multiset"
begin

section \<open>Data model\<close>

text \<open>
  A shallow embedding of the API facade (\<^verbatim>\<open>api.go\<close>) and of the index registry
  (\<^verbatim>\<open>index.go\<close>) of the bitmap-index server. Go's \<^verbatim>\<open>uint64\<close> and \<^verbatim>\<open>int64\<close> are 64-bit
  words, strings are byte lists compared bytewise, a Go \<^verbatim>\<open>error\<close> result is an
  \<open>error option\<close> (\<open>None\<close> is \<^verbatim>\<open>nil\<close>) and a \<^verbatim>\<open>(value, error)\<close> result is a sum with
  the error on the left. Logging and statistics have no effect on any result and are
  left out.
\<close>

type_synonym uint64 = "64 word"
type_synonym int64 = "64 word"

subsection \<open>API methods and errors\<close>

datatype apiMethod =
    apiClusterMessage
  | apiCreateField
  | apiCreateIndex
  | apiDeleteField
  | apiDeleteIndex
  | apiDeleteView
  | apiExportCSV
  | apiFragmentBlockData
  | apiFragmentBlocks
  | apiFieldAttrDiff
  | apiImport
  | apiImportValue
  | apiIndex
  | apiIndexAttrDiff
  | apiMarshalFragment
  | apiQuery
  | apiRecalculateCaches
  | apiRemoveNode
  | apiResizeAbort
  | apiSetCoordinator
  | apiSliceNodes
  | apiUnmarshalFragment
  | apiViews

text \<open>
  The sentinel errors the two files return, \<^verbatim>\<open>errors.New\<close>/\<^verbatim>\<open>errors.Errorf\<close> with the
  formatted message, \<^verbatim>\<open>errors.Wrap\<close> of a non-nil error, and the
  \<^verbatim>\<open>ApiMethodNotAllowedError\<close> wrapper.
\<close>

datatype error =
    ErrName
  | ErrFieldExists
  | ErrInvalidCacheType
  | ErrInvalidView
  | ErrIndexNotFound
  | ErrFieldNotFound
  | ErrFragmentNotFound
  | ErrClusterDoesNotOwnSlice
  | New string
  | Wrapped error string
  | ApiMethodNotAllowedError error

text \<open>\<^verbatim>\<open>errors.Wrap(err, msg)\<close> is nil when \<^verbatim>\<open>err\<close> is nil.\<close>

definition errors_Wrap :: "error option \<Rightarrow> string \<Rightarrow> error option" where
  "errors_Wrap err msg = (case err of None \<Rightarrow> None | Some e \<Rightarrow> Some (Wrapped e msg))"

text \<open>\<^verbatim>\<open>errors.Cause\<close>: the error under every layer of \<^verbatim>\<open>errors.Wrap\<close>.\<close>

fun errors_Cause :: "error \<Rightarrow> error" where
  "errors_Cause (Wrapped e msg) = errors_Cause e"
| "errors_Cause e = e"

text \<open>
  The file carries \<^verbatim>\<open>//go:generate stringer -type=apiMethod\<close>: the \<^verbatim>\<open>String\<close> method that
  \<^verbatim>\<open>%s\<close> uses is the generated one, which prints the constant's identifier.
\<close>

fun apiMethod_String :: "apiMethod \<Rightarrow> string" where
  "apiMethod_String apiClusterMessage = ''apiClusterMessage''"
| "apiMethod_String apiCreateField = ''apiCreateField''"
| "apiMethod_String apiCreateIndex = ''apiCreateIndex''"
| "apiMethod_String apiDeleteField = ''apiDeleteField''"
| "apiMethod_String apiDeleteIndex = ''apiDeleteIndex''"
| "apiMethod_String apiDeleteView = ''apiDeleteView''"
| "apiMethod_String apiExportCSV = ''apiExportCSV''"
| "apiMethod_String apiFragmentBlockData = ''apiFragmentBlockData''"
| "apiMethod_String apiFragmentBlocks = ''apiFragmentBlocks''"
| "apiMethod_String apiFieldAttrDiff = ''apiFieldAttrDiff''"
| "apiMethod_String apiImport = ''apiImport''"
| "apiMethod_String apiImportValue = ''apiImportValue''"
| "apiMethod_String apiIndex = ''apiIndex''"
| "apiMethod_String apiIndexAttrDiff = ''apiIndexAttrDiff''"
| "apiMethod_String apiMarshalFragment = ''apiMarshalFragment''"
| "apiMethod_String apiQuery = ''apiQuery''"
| "apiMethod_String apiRecalculateCaches = ''apiRecalculateCaches''"
| "apiMethod_String apiRemoveNode = ''apiRemoveNode''"
| "apiMethod_String apiResizeAbort = ''apiResizeAbort''"
| "apiMethod_String apiSetCoordinator = ''apiSetCoordinator''"
| "apiMethod_String apiSliceNodes = ''apiSliceNodes''"
| "apiMethod_String apiUnmarshalFragment = ''apiUnmarshalFragment''"
| "apiMethod_String apiViews = ''apiViews''"

subsection \<open>Attribute stores\<close>

datatype attrval = AttrString string | AttrInt int | AttrBool bool

type_synonym attrs = "string \<rightharpoonup> attrval"

record AttrBlock =
  ID :: uint64
  Checksum :: "8 word list"

text \<open>
  \<^verbatim>\<open>AttrStore\<close> is an interface; the two methods the API calls are the fields of the
  record. \<^verbatim>\<open>Blocks()\<close> returns the block summary or an error, \<^verbatim>\<open>BlockData(id)\<close> the
  id-to-attributes data of one block or an error.
\<close>

record AttrStore =
  Blocks :: "error + AttrBlock list"
  BlockData :: "uint64 \<Rightarrow> error + (uint64 \<rightharpoonup> attrs)"

definition NopAttrStore :: AttrStore where
  "NopAttrStore = \<lparr>Blocks = Inr [], BlockData = (\<lambda>_. Inr Map.empty)\<rparr>"

definition NewNopAttrStore :: "string \<Rightarrow> AttrStore" where
  "NewNopAttrStore p = NopAttrStore"

subsection \<open>Fields, indexes, holder, cluster\<close>

record FieldOptions =
  CacheType :: string
  CacheSize :: nat

text \<open>
  Modelled from the spec: the \<^verbatim>\<open>Field\<close> struct (\<^verbatim>\<open>field.go\<close>) is not among the sources.
  A field is a named bitmap dimension within an index: its storage path, the name of
  its index, its own name, the options applied to it and its row-attribute store.
\<close>

record Field =
  f_path :: string
  f_index :: string
  f_name :: string
  f_options :: FieldOptions
  rowAttrStore :: AttrStore

text \<open>
  \<^verbatim>\<open>Index.fields\<close> ("Fields by name") is a Go map from names to field pointers. It is
  the association list \<open>fieldsByName\<close> here: the order of the list stands for the
  (unspecified) order in which Go iterates over the map, and the keys of a registry are
  distinct.
\<close>

record Index =
  path :: string
  name :: string
  fieldsByName :: "(string \<times> Field) list"
  remoteMaxSlice :: uint64
  NewAttrStore :: "string \<Rightarrow> AttrStore"
  columnAttrStore :: AttrStore

text \<open>\<^verbatim>\<open>IndexOptions\<close> is the empty struct, and so is the \<^verbatim>\<open>IndexMeta\<close> it encodes to.\<close>

datatype IndexOptions = IndexOptions

datatype IndexMeta = IndexMeta

definition IndexOptions_Encode :: "IndexOptions \<Rightarrow> IndexMeta" where
  "IndexOptions_Encode i = IndexMeta"

text \<open>
  Modelled from the spec: the \<^verbatim>\<open>Holder\<close> (\<^verbatim>\<open>holder.go\<close>) is not among the sources. It is
  the top-level registry of indexes, a mapping from names to indexes.
\<close>

record Holder =
  indexes :: "(string \<times> Index) list"

record Node =
  NodeID :: string

text \<open>
  Modelled from the spec: the \<^verbatim>\<open>Cluster\<close> (\<^verbatim>\<open>cluster.go\<close>) is not among the sources. The
  API reads its lifecycle state, the local node, and the owners of a slice;
  \<^verbatim>\<open>ownsSlice(nodeID, index, slice)\<close> is true iff \<^verbatim>\<open>nodeID\<close> appears among the owners.
\<close>

record Cluster =
  state :: string
  Node :: Node
  sliceNodes :: "string \<Rightarrow> uint64 \<Rightarrow> Node list"

definition Cluster_State :: "Cluster \<Rightarrow> string" where
  "Cluster_State c = state c"

definition ownsSlice :: "Cluster \<Rightarrow> string \<Rightarrow> string \<Rightarrow> uint64 \<Rightarrow> bool" where
  "ownsSlice c nodeID indexName slc =
     (nodeID \<in> set (map NodeID (sliceNodes c indexName slc)))"

definition ClusterStateStarting :: string where
  "ClusterStateStarting = ''STARTING''"

definition ClusterStateNormal :: string where
  "ClusterStateNormal = ''NORMAL''"

definition ClusterStateResizing :: string where
  "ClusterStateResizing = ''RESIZING''"

subsection \<open>Requests, messages and the environment\<close>

record ImportValueRequest =
  Index :: string
  Field :: string
  Slice :: uint64
  ColumnIDs :: "uint64 list"
  Values :: "int64 list"

record ImportRequest =
  Index :: string
  Field :: string
  Slice :: uint64
  RowIDs :: "uint64 list"
  ColumnIDs :: "uint64 list"
  Timestamps :: "int64 list"

text \<open>A \<^verbatim>\<open>time.Time\<close>: whole seconds since the Unix epoch and nanoseconds within the second.\<close>

record Time =
  sec :: int
  nsec :: int

text \<open>
  The messages the API hands to \<^verbatim>\<open>Broadcaster.SendSync\<close>. \<^verbatim>\<open>FieldOptions.Encode\<close> is not
  among the sources: the message of a field's creation carries the options themselves.
\<close>

datatype message =
    CreateIndexMessage string IndexMeta
  | DeleteIndexMessage string
  | CreateFieldMessage string string FieldOptions
  | DeleteFieldMessage string string
  | DeleteViewMessage string string string
  | RecalculateCaches

text \<open>
  The calls the two files make on their collaborators outside the sources: the
  broadcaster, the storage of a field (named by the field's path), the file system and
  the CSV writer. A call is recorded, in order, in the history \<open>performed\<close>; whether it
  fails is the environment's answer \<open>outcome\<close>.
\<close>

datatype effect =
    SendSync message
  | FieldOpen string
  | FieldApplyOptions string FieldOptions
  | FieldSaveMeta string
  | FieldClose string
  | FieldDeleteView string string
  | FieldRecalculateCaches string
  | FieldImport string "uint64 list" "uint64 list" "Time option list"
  | FieldImportValue string "uint64 list" "int64 list"
  | RemoveAll string
  | CsvWrite "string list"
  | CsvFlush

text \<open>Modelled from the spec: a fragment (\<^verbatim>\<open>fragment.go\<close>) iterates over its (row, column) bits.\<close>

record Fragment =
  bits :: "(uint64 \<times> uint64) list"

text \<open>
  What the sources use and do not define is a parameter: the characters a name may
  hold, \<^verbatim>\<open>IsValidCacheType\<close>, \<^verbatim>\<open>FieldOptions.Validate\<close>, the \<^verbatim>\<open>Less\<close> of \<^verbatim>\<open>fieldSlice\<close>, the
  outcome of every recorded call, and the holder's \<^verbatim>\<open>CreateIndex\<close>, \<^verbatim>\<open>DeleteIndex\<close> and
  \<^verbatim>\<open>Fragment\<close>.
\<close>

record env =
  allowedChar :: "char \<Rightarrow> bool"
  IsValidCacheType :: "string \<Rightarrow> bool"
  Options_Validate :: "FieldOptions \<Rightarrow> error option"
  fieldSlice_Less :: "Field \<Rightarrow> Field \<Rightarrow> bool"
  outcome :: "effect \<Rightarrow> error option"
  Holder_CreateIndex :: "Holder \<Rightarrow> string \<Rightarrow> IndexOptions \<Rightarrow> error + (Index \<times> Holder)"
  Holder_DeleteIndex :: "Holder \<Rightarrow> string \<Rightarrow> error option \<times> Holder"
  Holder_Fragment :: "Holder \<Rightarrow> string \<Rightarrow> string \<Rightarrow> string \<Rightarrow> uint64 \<Rightarrow> Fragment option"

definition perform :: "env \<Rightarrow> effect \<Rightarrow> effect list \<Rightarrow> error option \<times> effect list" where
  "perform env e tr = (outcome env e, tr @ [e])"

text \<open>The API value: the holder and the cluster it points to, and the history of calls.\<close>

record API =
  Holder :: Holder
  Cluster :: Cluster
  performed :: "effect list"

section \<open>Method gating\<close>

text \<open>A Go \<^verbatim>\<open>map[apiMethod]struct{}\<close> is a partial map into \<open>unit\<close>.\<close>

definition methodsCommon :: "apiMethod \<rightharpoonup> unit" where
  "methodsCommon = [apiClusterMessage \<mapsto> (), apiMarshalFragment \<mapsto> (), apiSetCoordinator \<mapsto> ()]"

definition methodsResizing :: "apiMethod \<rightharpoonup> unit" where
  "methodsResizing = [apiResizeAbort \<mapsto> ()]"

definition methodsNormal :: "apiMethod \<rightharpoonup> unit" where
  "methodsNormal =
     [apiCreateField \<mapsto> (), apiCreateIndex \<mapsto> (), apiDeleteField \<mapsto> (),
      apiDeleteIndex \<mapsto> (), apiDeleteView \<mapsto> (), apiExportCSV \<mapsto> (),
      apiFragmentBlockData \<mapsto> (), apiFragmentBlocks \<mapsto> (), apiFieldAttrDiff \<mapsto> (),
      apiImport \<mapsto> (), apiImportValue \<mapsto> (), apiIndex \<mapsto> (), apiIndexAttrDiff \<mapsto> (),
      apiQuery \<mapsto> (), apiRecalculateCaches \<mapsto> (), apiRemoveNode \<mapsto> (),
      apiSliceNodes \<mapsto> (), apiUnmarshalFragment \<mapsto> (), apiViews \<mapsto> ()]"

text \<open>\<^verbatim>\<open>appendMap\<close> copies \<^verbatim>\<open>a\<close> and then \<^verbatim>\<open>b\<close> into a fresh map: \<^verbatim>\<open>b\<close> wins on a shared key.\<close>

definition appendMap :: "(apiMethod \<rightharpoonup> unit) \<Rightarrow> (apiMethod \<rightharpoonup> unit) \<Rightarrow> (apiMethod \<rightharpoonup> unit)" where
  "appendMap a b = (Map.empty ++ a) ++ b"

definition validAPIMethods :: "string \<rightharpoonup> (apiMethod \<rightharpoonup> unit)" where
  "validAPIMethods =
     [ClusterStateStarting \<mapsto> methodsCommon,
      ClusterStateNormal \<mapsto> appendMap methodsCommon methodsNormal,
      ClusterStateResizing \<mapsto> appendMap methodsCommon methodsResizing]"

text \<open>
  \<^verbatim>\<open>validAPIMethods[state][f]\<close>: a state that is no key of the table yields the nil map,
  in which no method is found.
\<close>

definition validate :: "API \<Rightarrow> apiMethod \<Rightarrow> error option" where
  "validate api f =
     (let st = Cluster_State (Cluster api) in
      case (case validAPIMethods st of None \<Rightarrow> Map.empty | Some m \<Rightarrow> m) f of
        Some ok \<Rightarrow> None
      | None \<Rightarrow> Some (ApiMethodNotAllowedError
          (New (''api method '' @ apiMethod_String f @ '' not allowed in state '' @ st))))"

section \<open>The index and its field registry\<close>

text \<open>
  Modelled from the spec: \<^verbatim>\<open>ValidateName\<close> is not among the sources. A name passes when it
  is non-empty and holds no disallowed character.
\<close>

definition ValidateName :: "env \<Rightarrow> string \<Rightarrow> error option" where
  "ValidateName env nm = (if nm \<noteq> [] \<and> list_all (allowedChar env) nm then None else Some ErrName)"

definition NewIndex :: "env \<Rightarrow> string \<Rightarrow> string \<Rightarrow> error + Index" where
  "NewIndex env p nm =
     (case ValidateName env nm of
        Some err \<Rightarrow> Inl (Wrapped err ''validating name'')
      | None \<Rightarrow> Inr \<lparr>path = p, name = nm, fieldsByName = [], remoteMaxSlice = 0,
                     NewAttrStore = NewNopAttrStore, columnAttrStore = NopAttrStore\<rparr>)"

definition Index_Name :: "Index \<Rightarrow> string" where
  "Index_Name i = name i"


text \<open>
  \<^verbatim>\<open>filepath.Join\<close> of the Go library, on a system whose separator is the slash: the
  leading empty elements are dropped, the others are joined with slashes, and the
  result is cleaned; no element or only empty ones give the empty path.
  \<^verbatim>\<open>filepath.Clean\<close> reads the path element by element: an empty element (a repeated or
  trailing slash) and \<^verbatim>\<open>.\<close> are dropped, \<^verbatim>\<open>..\<close> removes the element kept before it, is
  dropped at the root, and is kept at the start of a path that is not rooted; the
  empty path and a path without elements left become \<^verbatim>\<open>.\<close>, or \<^verbatim>\<open>/\<close> when rooted.
\<close>

fun elements :: "string \<Rightarrow> string list" where
  "elements [] = [[]]"
| "elements (c # cs) =
     (if c = CHR ''/'' then [] # elements cs
      else (case elements cs of [] \<Rightarrow> [[c]] | e # es \<Rightarrow> (c # e) # es))"

fun strings_Join :: "string list \<Rightarrow> string \<Rightarrow> string" where
  "strings_Join [] sep = []"
| "strings_Join [e] sep = e"
| "strings_Join (e # f # es) sep = e @ sep @ strings_Join (f # es) sep"

text \<open>One element of the path; \<open>out\<close> holds the elements kept so far, the last one first.\<close>

definition cleanElement :: "bool \<Rightarrow> string \<Rightarrow> string list \<Rightarrow> string list" where
  "cleanElement rooted e out =
     (if e = [] \<or> e = ''.'' then out
      else if e = ''..'' then
        (case out of
           [] \<Rightarrow> if rooted then [] else [e]
         | kept # rest \<Rightarrow> if kept = ''..'' then e # out else rest)
      else e # out)"

definition filepath_Clean :: "string \<Rightarrow> string" where
  "filepath_Clean p =
     (case p of
        [] \<Rightarrow> ''.''
      | c # cs \<Rightarrow>
         (let rooted = (c = CHR ''/'');
              out = rev (fold (cleanElement rooted) (elements p) [])
          in if rooted then ''/'' @ strings_Join out ''/''
             else if out = [] then ''.''
             else strings_Join out ''/''))"

definition filepath_Join :: "string list \<Rightarrow> string" where
  "filepath_Join elem =
     (case dropWhile (\<lambda>e. e = []) elem of
        [] \<Rightarrow> []
      | e # es \<Rightarrow> filepath_Clean (strings_Join (e # es) ''/''))"

definition FieldPath :: "Index \<Rightarrow> string \<Rightarrow> string" where
  "FieldPath i nm = filepath_Join [path i, nm]"

definition Index_field :: "Index \<Rightarrow> string \<Rightarrow> Field option" where
  "Index_field i nm = map_of (fieldsByName i) nm"

definition Index_Field :: "Index \<Rightarrow> string \<Rightarrow> Field option" where
  "Index_Field i nm = Index_field i nm"

definition Field_Name :: "Field \<Rightarrow> string" where
  "Field_Name f = f_name f"


text \<open>
  \<^verbatim>\<open>sort.Sort\<close> of the Go library orders a slice by its \<^verbatim>\<open>Less\<close>; it is an insertion sort
  here, which asks \<^verbatim>\<open>Less\<close> as the library's sort does.
\<close>

fun insertBy :: "('a \<Rightarrow> 'a \<Rightarrow> bool) \<Rightarrow> 'a \<Rightarrow> 'a list \<Rightarrow> 'a list" where
  "insertBy lt x [] = [x]"
| "insertBy lt x (y # ys) = (if lt y x then y # insertBy lt x ys else x # y # ys)"

definition sort_Sort :: "('a \<Rightarrow> 'a \<Rightarrow> bool) \<Rightarrow> 'a list \<Rightarrow> 'a list" where
  "sort_Sort lt xs = foldr (insertBy lt) xs []"

text \<open>
  \<^verbatim>\<open>Fields\<close> collects the values of the map and sorts them with \<^verbatim>\<open>sort.Sort(fieldSlice(a))\<close>.
  \<^verbatim>\<open>fieldSlice\<close> is declared beside \<^verbatim>\<open>Field\<close>, outside the sources: its \<^verbatim>\<open>Less\<close> is the
  parameter \<open>fieldSlice_Less\<close>.
\<close>

definition Index_Fields :: "env \<Rightarrow> Index \<Rightarrow> Field list" where
  "Index_Fields env i = sort_Sort (fieldSlice_Less env) (map snd (fieldsByName i))"

text \<open>
  Modelled from the spec: \<^verbatim>\<open>NewField\<close> (\<^verbatim>\<open>field.go\<close>) is not among the sources. A field
  name must pass the name-validity check before the field is created.
\<close>

definition NewField :: "env \<Rightarrow> string \<Rightarrow> string \<Rightarrow> string \<Rightarrow> error + Field" where
  "NewField env p indexName nm =
     (case ValidateName env nm of
        Some err \<Rightarrow> Inl (Wrapped err ''validating name'')
      | None \<Rightarrow> Inr \<lparr>f_path = p, f_index = indexName, f_name = nm,
                     f_options = \<lparr>CacheType = [], CacheSize = 0\<rparr>,
                     rowAttrStore = NopAttrStore\<rparr>)"

definition newField :: "env \<Rightarrow> Index \<Rightarrow> string \<Rightarrow> string \<Rightarrow> error + Field" where
  "newField env i p nm =
     (case NewField env p (name i) nm of
        Inl err \<Rightarrow> Inl err
      | Inr f \<Rightarrow> Inr (f\<lparr>rowAttrStore := NewAttrStore i (filepath_Join [f_path f, ''.data''])\<rparr>))"

text \<open>
  \<^verbatim>\<open>createField\<close>. \<^verbatim>\<open>Field.Open\<close>, \<^verbatim>\<open>applyOptions\<close>, \<^verbatim>\<open>saveMeta\<close> and \<^verbatim>\<open>Close\<close> are calls on the
  field's storage; a successful \<^verbatim>\<open>applyOptions\<close> leaves the field with the given options.
\<close>

definition createField ::
  "env \<Rightarrow> Index \<Rightarrow> string \<Rightarrow> FieldOptions \<Rightarrow> effect list \<Rightarrow> (error + Field) \<times> Index \<times> effect list" where
  "createField env i nm opt tr =
     (if nm = [] then (Inl (New ''frame name required''), i, tr)
      else if CacheType opt \<noteq> [] \<and> \<not> IsValidCacheType env (CacheType opt)
        then (Inl ErrInvalidCacheType, i, tr)
      else
       (case Options_Validate env opt of
          Some err \<Rightarrow> (Inl (Wrapped err ''validating options''), i, tr)
        | None \<Rightarrow>
         (case newField env i (FieldPath i nm) nm of
            Inl err \<Rightarrow> (Inl (Wrapped err ''initializing''), i, tr)
          | Inr f \<Rightarrow>
           (case perform env (FieldOpen (f_path f)) tr of
              (Some err, tr1) \<Rightarrow> (Inl (Wrapped err ''opening''), i, tr1)
            | (None, tr1) \<Rightarrow>
             (case perform env (FieldApplyOptions (f_path f) opt) tr1 of
                (Some err, tr2) \<Rightarrow>
                  (Inl (Wrapped err ''applying options''), i,
                   snd (perform env (FieldClose (f_path f)) tr2))
              | (None, tr2) \<Rightarrow>
               (let f1 = f\<lparr>f_options := opt\<rparr> in
                case perform env (FieldSaveMeta (f_path f1)) tr2 of
                  (Some err, tr3) \<Rightarrow>
                    (Inl (Wrapped err ''saving meta''), i,
                     snd (perform env (FieldClose (f_path f1)) tr3))
                | (None, tr3) \<Rightarrow>
                    (Inr f1, i\<lparr>fieldsByName := AList.update nm f1 (fieldsByName i)\<rparr>, tr3)))))))"

definition Index_CreateField ::
  "env \<Rightarrow> Index \<Rightarrow> string \<Rightarrow> FieldOptions \<Rightarrow> effect list \<Rightarrow> (error + Field) \<times> Index \<times> effect list" where
  "Index_CreateField env i nm opt tr =
     (case map_of (fieldsByName i) nm of
        Some f \<Rightarrow> (Inl ErrFieldExists, i, tr)
      | None \<Rightarrow> createField env i nm opt tr)"

definition Index_CreateFieldIfNotExists ::
  "env \<Rightarrow> Index \<Rightarrow> string \<Rightarrow> FieldOptions \<Rightarrow> effect list \<Rightarrow> (error + Field) \<times> Index \<times> effect list" where
  "Index_CreateFieldIfNotExists env i nm opt tr =
     (case map_of (fieldsByName i) nm of
        Some f \<Rightarrow> (Inr f, i, tr)
      | None \<Rightarrow> createField env i nm opt tr)"

definition Index_DeleteField ::
  "env \<Rightarrow> Index \<Rightarrow> string \<Rightarrow> effect list \<Rightarrow> error option \<times> Index \<times> effect list" where
  "Index_DeleteField env i nm tr =
     (case Index_field i nm of
        None \<Rightarrow> (None, i, tr)
      | Some f \<Rightarrow>
       (case perform env (FieldClose (f_path f)) tr of
          (Some err, tr1) \<Rightarrow> (Some (Wrapped err ''closing''), i, tr1)
        | (None, tr1) \<Rightarrow>
         (case perform env (RemoveAll (FieldPath i nm)) tr1 of
            (Some err, tr2) \<Rightarrow> (Some (Wrapped err ''removing directory''), i, tr2)
          | (None, tr2) \<Rightarrow> (None, i\<lparr>fieldsByName := AList.delete nm (fieldsByName i)\<rparr>, tr2))))"

text \<open>\<^verbatim>\<open>Index.RecalculateCaches\<close> walks \<^verbatim>\<open>Fields()\<close>; \<^verbatim>\<open>Field.RecalculateCaches\<close> returns nothing.\<close>

definition Index_RecalculateCaches :: "env \<Rightarrow> Index \<Rightarrow> effect list \<Rightarrow> effect list" where
  "Index_RecalculateCaches env i tr =
     fold (\<lambda>frame t. snd (perform env (FieldRecalculateCaches (f_path frame)) t)) (Index_Fields env i)
       tr"





section \<open>The API facade\<close>

subsection \<open>Holder lookups\<close>

text \<open>
  Modelled from the spec: \<^verbatim>\<open>Holder.Index\<close> and \<^verbatim>\<open>Holder.Field\<close> look a name up in the
  registry. Go holds indexes by pointer, so a change made through an index is seen
  through the holder: \<open>Holder_store\<close> writes the changed index back under its name.
\<close>

definition Holder_Index :: "Holder \<Rightarrow> string \<Rightarrow> Index option" where
  "Holder_Index h indexName = map_of (indexes h) indexName"

definition Holder_Field :: "Holder \<Rightarrow> string \<Rightarrow> string \<Rightarrow> Field option" where
  "Holder_Field h indexName fieldName =
     (case Holder_Index h indexName of
        None \<Rightarrow> None
      | Some i \<Rightarrow> Index_Field i fieldName)"

definition Holder_store :: "Holder \<Rightarrow> string \<Rightarrow> Index \<Rightarrow> Holder" where
  "Holder_store h indexName i = h\<lparr>indexes := AList.update indexName i (indexes h)\<rparr>"

text \<open>
  Modelled from the spec: \<^verbatim>\<open>Holder.RecalculateCaches\<close> recalculates the caches of every
  index of the registry.
\<close>

definition Holder_RecalculateCaches :: "env \<Rightarrow> Holder \<Rightarrow> effect list \<Rightarrow> effect list" where
  "Holder_RecalculateCaches env h tr =
     fold (\<lambda>i t. Index_RecalculateCaches env i t) (map snd (indexes h)) tr"

definition LocalID :: "API \<Rightarrow> string" where
  "LocalID api = NodeID (Node (Cluster api))"

definition ViewStandard :: string where
  "ViewStandard = ''standard''"

subsection \<open>Schema operations\<close>

definition API_CreateIndex :: "env \<Rightarrow> API \<Rightarrow> string \<Rightarrow> IndexOptions \<Rightarrow> (error + Index) \<times> API" where
  "API_CreateIndex env api indexName options =
     (case validate api apiCreateIndex of
        Some err \<Rightarrow> (Inl (Wrapped err ''validating api method''), api)
      | None \<Rightarrow>
       (case Holder_CreateIndex env (Holder api) indexName options of
          Inl err \<Rightarrow> (Inl (Wrapped err ''creating index''), api)
        | Inr (idx, h) \<Rightarrow>
         (case perform env (SendSync (CreateIndexMessage indexName (IndexOptions_Encode options)))
                 (performed api) of
            (Some err, tr) \<Rightarrow>
              (Inl (Wrapped err ''sending CreateIndex message''), api\<lparr>Holder := h, performed := tr\<rparr>)
          | (None, tr) \<Rightarrow> (Inr idx, api\<lparr>Holder := h, performed := tr\<rparr>))))"

definition API_DeleteIndex :: "env \<Rightarrow> API \<Rightarrow> string \<Rightarrow> error option \<times> API" where
  "API_DeleteIndex env api indexName =
     (case validate api apiDeleteIndex of
        Some err \<Rightarrow> (Some (Wrapped err ''validating api method''), api)
      | None \<Rightarrow>
       (case Holder_DeleteIndex env (Holder api) indexName of
          (Some err, h) \<Rightarrow> (Some (Wrapped err ''deleting index''), api\<lparr>Holder := h\<rparr>)
        | (None, h) \<Rightarrow>
         (case perform env (SendSync (DeleteIndexMessage indexName)) (performed api) of
            (Some err, tr) \<Rightarrow>
              (Some (Wrapped err ''sending DeleteIndex message''), api\<lparr>Holder := h, performed := tr\<rparr>)
          | (None, tr) \<Rightarrow> (None, api\<lparr>Holder := h, performed := tr\<rparr>))))"

definition API_CreateField ::
  "env \<Rightarrow> API \<Rightarrow> string \<Rightarrow> string \<Rightarrow> FieldOptions \<Rightarrow> (error + Field) \<times> API" where
  "API_CreateField env api indexName fieldName options =
     (case validate api apiCreateField of
        Some err \<Rightarrow> (Inl (Wrapped err ''validating api method''), api)
      | None \<Rightarrow>
       (case Holder_Index (Holder api) indexName of
          None \<Rightarrow> (Inl ErrIndexNotFound, api)
        | Some idx \<Rightarrow>
         (case Index_CreateField env idx fieldName options (performed api) of
            (Inl err, idx1, tr) \<Rightarrow>
              (Inl (Wrapped err ''creating field''),
               api\<lparr>Holder := Holder_store (Holder api) indexName idx1, performed := tr\<rparr>)
          | (Inr fld, idx1, tr) \<Rightarrow>
           (case perform env (SendSync (CreateFieldMessage indexName fieldName options)) tr of
              (Some err, tr1) \<Rightarrow>
                (Inl (Wrapped err ''sending CreateField message''),
                 api\<lparr>Holder := Holder_store (Holder api) indexName idx1, performed := tr1\<rparr>)
            | (None, tr1) \<Rightarrow>
                (Inr fld,
                 api\<lparr>Holder := Holder_store (Holder api) indexName idx1, performed := tr1\<rparr>)))))"

definition API_DeleteField :: "env \<Rightarrow> API \<Rightarrow> string \<Rightarrow> string \<Rightarrow> error option \<times> API" where
  "API_DeleteField env api indexName fieldName =
     (case validate api apiDeleteField of
        Some err \<Rightarrow> (Some (Wrapped err ''validating api method''), api)
      | None \<Rightarrow>
       (case Holder_Index (Holder api) indexName of
          None \<Rightarrow> (Some ErrIndexNotFound, api)
        | Some idx \<Rightarrow>
         (case Index_DeleteField env idx fieldName (performed api) of
            (Some err, idx1, tr) \<Rightarrow>
              (Some (Wrapped err ''deleting field''),
               api\<lparr>Holder := Holder_store (Holder api) indexName idx1, performed := tr\<rparr>)
          | (None, idx1, tr) \<Rightarrow>
           (case perform env (SendSync (DeleteFieldMessage indexName fieldName)) tr of
              (Some err, tr1) \<Rightarrow>
                (Some (Wrapped err ''sending DeleteField message''),
                 api\<lparr>Holder := Holder_store (Holder api) indexName idx1, performed := tr1\<rparr>)
            | (None, tr1) \<Rightarrow>
                (None, api\<lparr>Holder := Holder_store (Holder api) indexName idx1, performed := tr1\<rparr>)))))"

text \<open>
  \<^verbatim>\<open>DeleteView\<close>: an \<^verbatim>\<open>ErrInvalidView\<close> from the field is ignored; the result is the wrapped
  outcome of the broadcast.
\<close>

definition API_DeleteView :: "env \<Rightarrow> API \<Rightarrow> string \<Rightarrow> string \<Rightarrow> string \<Rightarrow> error option \<times> API" where
  "API_DeleteView env api indexName fieldName viewName =
     (case validate api apiDeleteView of
        Some err \<Rightarrow> (Some (Wrapped err ''validating api method''), api)
      | None \<Rightarrow>
       (case Holder_Field (Holder api) indexName fieldName of
          None \<Rightarrow> (Some ErrFieldNotFound, api)
        | Some f \<Rightarrow>
         (case perform env (FieldDeleteView (f_path f) viewName) (performed api) of
            (derr, tr) \<Rightarrow>
              if derr \<noteq> None \<and> derr \<noteq> Some ErrInvalidView
              then (errors_Wrap derr ''deleting view'', api\<lparr>performed := tr\<rparr>)
              else
               (case perform env (SendSync (DeleteViewMessage indexName fieldName viewName)) tr of
                  (err, tr1) \<Rightarrow> (errors_Wrap err ''sending DeleteView message'', api\<lparr>performed := tr1\<rparr>)))))"

definition API_RecalculateCaches :: "env \<Rightarrow> API \<Rightarrow> error option \<times> API" where
  "API_RecalculateCaches env api =
     (case validate api apiRecalculateCaches of
        Some err \<Rightarrow> (Some (Wrapped err ''validating api method''), api)
      | None \<Rightarrow>
       (case perform env (SendSync RecalculateCaches) (performed api) of
          (Some err, tr) \<Rightarrow> (Some (Wrapped err ''broacasting message''), api\<lparr>performed := tr\<rparr>)
        | (None, tr) \<Rightarrow>
            (None, api\<lparr>performed := Holder_RecalculateCaches env (Holder api) tr\<rparr>)))"

subsection \<open>Export and import\<close>

text \<open>\<^verbatim>\<open>strconv.FormatUint(x, 10)\<close>: the decimal digits of \<^verbatim>\<open>x\<close>.\<close>

definition digit :: "nat \<Rightarrow> char" where
  "digit d = char_of (48 + d)"

function FormatUint10 :: "nat \<Rightarrow> string" where
  "FormatUint10 n = (if n < 10 then [digit n] else FormatUint10 (n div 10) @ [digit (n mod 10)])"
  by pat_completeness auto
termination
  by (relation "measure id") auto

text \<open>
  \<^verbatim>\<open>forEachBit\<close> with the CSV callback: one \<^verbatim>\<open>cw.Write\<close> per bit, stopping at the first
  error.
\<close>

fun forEachBit_Write :: "env \<Rightarrow> (uint64 \<times> uint64) list \<Rightarrow> effect list \<Rightarrow> error option \<times> effect list" where
  "forEachBit_Write env [] tr = (None, tr)"
| "forEachBit_Write env ((rowID, columnID) # rest) tr =
     (case perform env (CsvWrite [FormatUint10 (unat rowID), FormatUint10 (unat columnID)]) tr of
        (Some err, tr1) \<Rightarrow> (Some err, tr1)
      | (None, tr1) \<Rightarrow> forEachBit_Write env rest tr1)"

definition API_ExportCSV :: "env \<Rightarrow> API \<Rightarrow> string \<Rightarrow> string \<Rightarrow> uint64 \<Rightarrow> error option \<times> API" where
  "API_ExportCSV env api indexName fieldName slc =
     (case validate api apiExportCSV of
        Some err \<Rightarrow> (Some (Wrapped err ''validating api method''), api)
      | None \<Rightarrow>
        if \<not> ownsSlice (Cluster api) (LocalID api) indexName slc
        then (Some ErrClusterDoesNotOwnSlice, api)
        else
         (case Holder_Fragment env (Holder api) indexName fieldName ViewStandard slc of
            None \<Rightarrow> (Some ErrFragmentNotFound, api)
          | Some f \<Rightarrow>
           (case forEachBit_Write env (bits f) (performed api) of
              (Some err, tr) \<Rightarrow> (Some (Wrapped err ''writing CSV''), api\<lparr>performed := tr\<rparr>)
            | (None, tr) \<Rightarrow> (None, api\<lparr>performed := snd (perform env CsvFlush tr)\<rparr>))))"

definition indexField :: "API \<Rightarrow> string \<Rightarrow> string \<Rightarrow> uint64 \<Rightarrow> error + (Index \<times> Field)" where
  "indexField api indexName fieldName slc =
     (if \<not> ownsSlice (Cluster api) (LocalID api) indexName slc
      then Inl ErrClusterDoesNotOwnSlice
      else
       (case Holder_Index (Holder api) indexName of
          None \<Rightarrow> Inl ErrIndexNotFound
        | Some idx \<Rightarrow>
         (case Index_Field idx fieldName of
            None \<Rightarrow> Inl ErrFieldNotFound
          | Some fld \<Rightarrow> Inr (idx, fld))))"

text \<open>
  \<^verbatim>\<open>time.Unix(sec, nsec)\<close> of the Go library: nanoseconds outside \<open>[0, 1e9)\<close> are carried
  into the seconds, with Go's division that truncates toward zero.
\<close>

definition go_quot :: "int \<Rightarrow> int \<Rightarrow> int" where
  "go_quot a b = sgn a * sgn b * (\<bar>a\<bar> div \<bar>b\<bar>)"

definition time_Unix :: "int \<Rightarrow> int \<Rightarrow> Time" where
  "time_Unix s ns =
     (if ns < 0 \<or> ns \<ge> 1000000000 then
        (let n = go_quot ns 1000000000;
             s1 = s + n;
             ns1 = ns - n * 1000000000
         in if ns1 < 0 then \<lparr>sec = s1 - 1, nsec = ns1 + 1000000000\<rparr>
            else \<lparr>sec = s1, nsec = ns1\<rparr>)
      else \<lparr>sec = s, nsec = ns\<rparr>)"

definition UnixNano :: "Time \<Rightarrow> int" where
  "UnixNano t = sec t * 1000000000 + nsec t"

text \<open>
  The conversion loop of \<^verbatim>\<open>Import\<close>: \<^verbatim>\<open>timestamps\<close> starts as \<^verbatim>\<open>len(req.Timestamps)\<close> nil
  entries; position \<^verbatim>\<open>i\<close> is skipped when the timestamp is zero and set otherwise.
\<close>

fun convertTimestamps :: "nat \<Rightarrow> int64 list \<Rightarrow> Time option list \<Rightarrow> Time option list" where
  "convertTimestamps i [] timestamps = timestamps"
| "convertTimestamps i (ts # rest) timestamps =
     (if ts = 0 then convertTimestamps (Suc i) rest timestamps
      else convertTimestamps (Suc i) rest (timestamps[i := Some (time_Unix 0 (sint ts))]))"

definition API_Import :: "env \<Rightarrow> API \<Rightarrow> ImportRequest \<Rightarrow> error option \<times> API" where
  "API_Import env api req =
     (case validate api apiImport of
        Some err \<Rightarrow> (Some (Wrapped err ''validating api method''), api)
      | None \<Rightarrow>
       (case indexField api (ImportRequest.Index req) (ImportRequest.Field req) (ImportRequest.Slice req) of
          Inl err \<Rightarrow> (Some (Wrapped err ''getting field''), api)
        | Inr (idx, fld) \<Rightarrow>
           (let timestamps =
                  convertTimestamps 0 (Timestamps req) (replicate (length (Timestamps req)) None)
            in case perform env
                      (FieldImport (f_path fld) (RowIDs req) (ImportRequest.ColumnIDs req) timestamps)
                      (performed api) of
                 (err, tr) \<Rightarrow> (errors_Wrap err ''importing'', api\<lparr>performed := tr\<rparr>))))"

definition API_ImportValue :: "env \<Rightarrow> API \<Rightarrow> ImportValueRequest \<Rightarrow> error option \<times> API" where
  "API_ImportValue env api req =
     (case validate api apiImportValue of
        Some err \<Rightarrow> (Some (Wrapped err ''validating api method''), api)
      | None \<Rightarrow>
       (case indexField api (ImportValueRequest.Index req) (ImportValueRequest.Field req)
               (ImportValueRequest.Slice req) of
          Inl err \<Rightarrow> (Some (Wrapped err ''getting field''), api)
        | Inr (idx, fld) \<Rightarrow>
           (case perform env
                   (FieldImportValue (f_path fld) (ImportValueRequest.ColumnIDs req) (Values req))
                   (performed api) of
              (err, tr) \<Rightarrow> (errors_Wrap err ''importing'', api\<lparr>performed := tr\<rparr>))))"

subsection \<open>Attribute diff\<close>



text \<open>
  The loop shared by \<^verbatim>\<open>IndexAttrDiff\<close> and \<^verbatim>\<open>FieldAttrDiff\<close>: the data of every block of the
  diff is copied into \<^verbatim>\<open>attrs\<close>, a later block overwriting an earlier one on a shared id;
  the first \<^verbatim>\<open>BlockData\<close> that fails ends the call.
\<close>

fun copyBlocks :: "AttrStore \<Rightarrow> uint64 list \<Rightarrow> (uint64 \<rightharpoonup> attrs) \<Rightarrow> error + (uint64 \<rightharpoonup> attrs)" where
  "copyBlocks store [] attrs = Inr attrs"
| "copyBlocks store (blockID # rest) attrs =
     (case BlockData store blockID of
        Inl err \<Rightarrow> Inl (Wrapped err ''getting block'')
      | Inr m \<Rightarrow> copyBlocks store rest (attrs ++ m))"



section \<open>Statements of the spec and concrete inputs\<close>

text \<open>
  The predicates in which the properties below are stated, in the spec's words, and
  the inputs at which the properties are instantiated.
\<close>

text \<open>
  The state-specific method set in the spec's words: the normal set in \<open>NORMAL\<close>, the
  resizing set in \<open>RESIZING\<close>, nothing beyond the common set in \<open>STARTING\<close>.
\<close>

definition stateSet :: "string \<Rightarrow> apiMethod set" where
  "stateSet S =
     (if S = ClusterStateNormal then dom methodsNormal
      else if S = ClusterStateResizing then dom methodsResizing
      else {})"

definition api0 :: "string \<Rightarrow> API" where
  "api0 S = \<lparr>Holder = \<lparr>indexes = []\<rparr>,
            Cluster = \<lparr>state = S, Node = \<lparr>NodeID = ''node0''\<rparr>, sliceNodes = (\<lambda>i s. [])\<rparr>,
            performed = []\<rparr>"

text \<open>
  An environment in which every call succeeds, names are lower-case letters, digits,
  underscore and dash, and the holder's operations act on its registry; an index
  \<open>i\<close> holding one field \<open>f1\<close>.
\<close>

definition allowed0 :: "char \<Rightarrow> bool" where
  "allowed0 c = (c \<in> set ''abcdefghijklmnopqrstuvwxyz0123456789_-'')"

definition newIndex0 :: "string \<Rightarrow> Index" where
  "newIndex0 nm = \<lparr>path = ''data/'' @ nm, name = nm, fieldsByName = [], remoteMaxSlice = 0,
                  NewAttrStore = NewNopAttrStore, columnAttrStore = NopAttrStore\<rparr>"

definition env0 :: env where
  "env0 = \<lparr>allowedChar = allowed0,
           IsValidCacheType = (\<lambda>t. t \<in> set [''lru'', ''ranked'', ''none'']),
           Options_Validate = (\<lambda>opt. None),
           fieldSlice_Less = (\<lambda>f g. Field_Name f < Field_Name g),
           outcome = (\<lambda>e. None),
           Holder_CreateIndex = (\<lambda>h nm opt.
             case map_of (indexes h) nm of
               Some i \<Rightarrow> Inl (New ''index already exists'')
             | None \<Rightarrow> Inr (newIndex0 nm, h\<lparr>indexes := AList.update nm (newIndex0 nm) (indexes h)\<rparr>)),
           Holder_DeleteIndex = (\<lambda>h nm. (None, h\<lparr>indexes := AList.delete nm (indexes h)\<rparr>)),
           Holder_Fragment = (\<lambda>h i f v s. None)\<rparr>"

definition field0 :: "string \<Rightarrow> string \<Rightarrow> Field" where
  "field0 indexName nm =
     \<lparr>f_path = ''data/'' @ indexName @ ''/'' @ nm, f_index = indexName, f_name = nm,
                f_options = \<lparr>CacheType = ''ranked'', CacheSize = 50000\<rparr>,
                rowAttrStore = NopAttrStore\<rparr>"

definition index0 :: Index where
  "index0 = (newIndex0 ''i'')\<lparr>fieldsByName := [(''f1'', field0 ''i'' ''f1'')]\<rparr>"

definition opt0 :: FieldOptions where
  "opt0 = \<lparr>CacheType = ''lru'', CacheSize = 10\<rparr>"

definition envCloseFails :: env where
  "envCloseFails =
     env0\<lparr>outcome := (\<lambda>e. case e of FieldClose p \<Rightarrow> Some (New ''close failed'') | _ \<Rightarrow> None)\<rparr>"

text \<open>
  A well-formed registry: the keys are distinct, as the keys of a Go map are, and every
  field is registered under its own name, as \<open>createField\<close> and \<open>openFields\<close> register it.
\<close>

definition registry_ok :: "Index \<Rightarrow> bool" where
  "registry_ok i =
     (distinct (map fst (fieldsByName i)) \<and> list_all (\<lambda>(k, f). Field_Name f = k) (fieldsByName i))"


definition envInvalidView :: env where
  "envInvalidView =
     env0\<lparr>outcome := (\<lambda>e. case e of FieldDeleteView p v \<Rightarrow> Some ErrInvalidView | _ \<Rightarrow> None)\<rparr>"



text \<open>
  A cluster in which the local node \<open>node0\<close> owns slice 0 and no other slice, an API
  over a holder with the index \<open>i\<close>, two import requests for slice 1, and an environment
  whose broadcasts fail.
\<close>

definition cluster0 :: "string \<Rightarrow> Cluster" where
  "cluster0 S = \<lparr>state = S, Node = \<lparr>NodeID = ''node0''\<rparr>,
                 sliceNodes = (\<lambda>i s. if s = 0 then [\<lparr>NodeID = ''node0''\<rparr>, \<lparr>NodeID = ''node1''\<rparr>]
                                       else [\<lparr>NodeID = ''node1''\<rparr>, \<lparr>NodeID = ''node2''\<rparr>])\<rparr>"

definition api1 :: "string \<Rightarrow> API" where
  "api1 S = \<lparr>Holder = \<lparr>indexes = [(''i'', index0)]\<rparr>, Cluster = cluster0 S, performed = []\<rparr>"

definition req1 :: ImportRequest where
  "req1 = \<lparr>Index = ''i'', Field = ''f1'', Slice = 1, RowIDs = [1, 2], ColumnIDs = [5, 9],
            Timestamps = [0, 1500000000000000001]\<rparr>"

definition vreq1 :: ImportValueRequest where
  "vreq1 = \<lparr>ImportValueRequest.Index = ''i'', ImportValueRequest.Field = ''f1'',
             ImportValueRequest.Slice = 1, ImportValueRequest.ColumnIDs = [5, 9], Values = [7, 8]\<rparr>"

definition envBroadcastFails :: env where
  "envBroadcastFails =
     env0\<lparr>outcome := (\<lambda>e. case e of SendSync m \<Rightarrow> Some (New ''node unreachable'') | _ \<Rightarrow> None)\<rparr>"

text \<open>
  The conversion of one timestamp in the spec's words: zero is no timestamp, any other
  value is the time that many nanoseconds from the epoch. An import request for the
  owned slice 0.
\<close>

definition timestampToTime :: "int64 \<Rightarrow> Time option" where
  "timestampToTime ts = (if ts = 0 then None else Some (time_Unix 0 (sint ts)))"

definition req0 :: ImportRequest where
  "req0 = \<lparr>Index = ''i'', Field = ''f1'', Slice = 0, RowIDs = [1, 2, 3], ColumnIDs = [5, 9, 11],
            Timestamps = [0, 1500000000000000001, - 1]\<rparr>"









section \<open>Verified properties\<close>

subsection \<open>Method gating\<close>

lemma dom_appendMap: "dom (appendMap a b) = dom a \<union> dom b"
  by (auto simp: appendMap_def)

lemma states_distinct:
  "ClusterStateStarting \<noteq> ClusterStateNormal"
  "ClusterStateStarting \<noteq> ClusterStateResizing"
  "ClusterStateNormal \<noteq> ClusterStateResizing"
  by (simp_all add: ClusterStateStarting_def ClusterStateNormal_def ClusterStateResizing_def)

lemma validAPIMethods_Starting: "validAPIMethods ClusterStateStarting = Some methodsCommon"
  using states_distinct by (simp add: validAPIMethods_def)

lemma validAPIMethods_Normal:
  "validAPIMethods ClusterStateNormal = Some (appendMap methodsCommon methodsNormal)"
  using states_distinct by (simp add: validAPIMethods_def)

lemma validAPIMethods_Resizing:
  "validAPIMethods ClusterStateResizing = Some (appendMap methodsCommon methodsResizing)"
  by (simp add: validAPIMethods_def)

lemma validAPIMethods_other:
  "S \<noteq> ClusterStateStarting \<Longrightarrow> S \<noteq> ClusterStateNormal \<Longrightarrow> S \<noteq> ClusterStateResizing
   \<Longrightarrow> validAPIMethods S = None"
  by (simp add: validAPIMethods_def)

lemma validate_cases:
  "validate api f =
     (if f \<in> dom (case validAPIMethods (Cluster_State (Cluster api)) of
                    None \<Rightarrow> Map.empty | Some m \<Rightarrow> m)
      then None
      else Some (ApiMethodNotAllowedError
          (New (''api method '' @ apiMethod_String f @ '' not allowed in state '' @
                Cluster_State (Cluster api)))))"
  by (auto simp: validate_def Let_def split: option.splits)

lemma allowed_set:
  assumes "S \<in> {ClusterStateStarting, ClusterStateNormal, ClusterStateResizing}"
  shows "dom (case validAPIMethods S of None \<Rightarrow> Map.empty | Some m \<Rightarrow> m) =
         dom methodsCommon \<union> stateSet S"
  using assms states_distinct
  by (auto simp: validAPIMethods_Starting validAPIMethods_Normal validAPIMethods_Resizing
      dom_appendMap stateSet_def)

lemma apiMethod_String_inj: "inj apiMethod_String"
proof (rule injI)
  fix x y assume "apiMethod_String x = apiMethod_String y"
  then show "x = y" by (cases x; cases y; simp)
qed

lemma Cluster_State_api0: "Cluster_State (Cluster (api0 S)) = S"
  by (simp add: api0_def Cluster_State_def)

text \<open>
  C1. In each of the three cluster states \<open>S\<close>, \<open>validate M\<close> returns no error exactly
  when \<open>M\<close> is in the common method set or in the set specific to \<open>S\<close>. When it fails,
  the error is the method-not-allowed error whose message holds the name of the
  method and the state; distinct methods have distinct names.
\<close>

theorem validate_iff_allowed:
  assumes "Cluster_State (Cluster api) = S"
    and "S \<in> {ClusterStateStarting, ClusterStateNormal, ClusterStateResizing}"
  shows "(validate api M = None \<longleftrightarrow> M \<in> dom methodsCommon \<union> stateSet S) \<and>
         (validate api M \<noteq> None \<longrightarrow>
            validate api M = Some (ApiMethodNotAllowedError
              (New (''api method '' @ apiMethod_String M @ '' not allowed in state '' @ S)))) \<and>
         inj apiMethod_String"
  using allowed_set[OF assms(2)] assms(1) apiMethod_String_inj
  by (simp add: validate_cases)

theorem validate_iff_allowed_witness:
  "validate (api0 ''RESIZING'') apiResizeAbort = None \<and>
   validate (api0 ''RESIZING'') apiQuery = Some (ApiMethodNotAllowedError
              (New ''api method apiQuery not allowed in state RESIZING''))"
proof -
  have S: "''RESIZING'' \<in> {ClusterStateStarting, ClusterStateNormal, ClusterStateResizing}"
    by (simp add: ClusterStateResizing_def)
  have a: "apiResizeAbort \<in> dom methodsCommon \<union> stateSet ''RESIZING''"
    by (simp add: stateSet_def ClusterStateResizing_def ClusterStateNormal_def methodsResizing_def)
  have b: "apiQuery \<notin> dom methodsCommon \<union> stateSet ''RESIZING''"
    by (simp add: stateSet_def ClusterStateResizing_def ClusterStateNormal_def methodsResizing_def
        methodsCommon_def)
  from validate_iff_allowed[OF Cluster_State_api0 S, of apiResizeAbort]
       validate_iff_allowed[OF Cluster_State_api0 S, of apiQuery] a b
  show ?thesis by simp
qed

lemma dom_methodsCommon:
  "dom methodsCommon = {apiClusterMessage, apiMarshalFragment, apiSetCoordinator}"
  by (auto simp: methodsCommon_def split: if_splits)

lemma dom_methodsResizing: "dom methodsResizing = {apiResizeAbort}"
  by (auto simp: methodsResizing_def split: if_splits)

text \<open>
  C2. The common method set is exactly the receipt of a cluster message,
  \<open>MarshalFragment\<close> and \<open>SetCoordinator\<close>; the resizing set is exactly \<open>ResizeAbort\<close>; in
  the \<open>RESIZING\<close> state those four methods pass validation and every other method is
  rejected.
\<close>

theorem resizing_allows_exactly_four:
  "dom methodsCommon = {apiClusterMessage, apiMarshalFragment, apiSetCoordinator} \<and>
   dom methodsResizing = {apiResizeAbort} \<and>
   (\<forall>api f. Cluster_State (Cluster api) = ClusterStateResizing \<longrightarrow>
      (validate api f = None \<longleftrightarrow>
         f \<in> {apiClusterMessage, apiMarshalFragment, apiSetCoordinator, apiResizeAbort}))"
  by (auto simp: validate_cases validAPIMethods_Resizing dom_appendMap dom_methodsCommon
      dom_methodsResizing)

theorem resizing_allows_exactly_four_witness:
  "validate (api0 ClusterStateResizing) apiClusterMessage = None \<and>
   validate (api0 ClusterStateResizing) apiMarshalFragment = None \<and>
   validate (api0 ClusterStateResizing) apiSetCoordinator = None \<and>
   validate (api0 ClusterStateResizing) apiResizeAbort = None \<and>
   validate (api0 ClusterStateResizing) apiQuery \<noteq> None \<and>
   validate (api0 ClusterStateResizing) apiImport \<noteq> None"
  using resizing_allows_exactly_four Cluster_State_api0[of ClusterStateResizing]
  by simp

subsection \<open>The field registry\<close>

lemma perform_simp: "perform env e tr = (outcome env e, tr @ [e])"
  by (simp add: perform_def)

text \<open>
  C5. \<open>Index.CreateField\<close> with a name already in the field registry fails with
  \<open>ErrFieldExists\<close> and leaves the index as it was; \<open>Index.CreateFieldIfNotExists\<close> with
  such a name returns the registered field, not touched by the supplied options, with
  no error. Neither calls the field's storage.
\<close>

theorem CreateField_on_existing_name:
  assumes "map_of (fieldsByName i) nm = Some f"
  shows "Index_CreateField env i nm opt tr = (Inl ErrFieldExists, i, tr) \<and>
         Index_CreateFieldIfNotExists env i nm opt tr = (Inr f, i, tr)"
  using assms by (simp add: Index_CreateField_def Index_CreateFieldIfNotExists_def)

theorem CreateField_on_existing_name_witness:
  "Index_CreateField env0 index0 ''f1'' opt0 [] = (Inl ErrFieldExists, index0, []) \<and>
   Index_CreateFieldIfNotExists env0 index0 ''f1'' opt0 [] = (Inr (field0 ''i'' ''f1''), index0, []) \<and>
   f_options (field0 ''i'' ''f1'') \<noteq> opt0"
proof -
  have "map_of (fieldsByName index0) ''f1'' = Some (field0 ''i'' ''f1'')"
    by (simp add: index0_def)
  from CreateField_on_existing_name[OF this, of env0 opt0 "[]"]
  show ?thesis by (simp add: field0_def opt0_def)
qed

text \<open>
  C6, as amended. \<open>Index.DeleteField\<close> with a name that is not in the field registry
  returns no error and leaves the index unchanged. With a registered field it closes
  the field; when closing and then removing the directory succeed, the directory is
  removed, the entry is removed from the registry and no error is returned; when
  closing or removing fails, the wrapped error is returned and the entry stays.
\<close>

theorem DeleteField_steps:
  "(Index_field i nm = None \<longrightarrow> Index_DeleteField env i nm tr = (None, i, tr)) \<and>
   (\<forall>f. Index_field i nm = Some f \<longrightarrow>
      (outcome env (FieldClose (f_path f)) = None \<and> outcome env (RemoveAll (FieldPath i nm)) = None \<longrightarrow>
         Index_DeleteField env i nm tr =
           (None, i\<lparr>fieldsByName := AList.delete nm (fieldsByName i)\<rparr>,
            tr @ [FieldClose (f_path f), RemoveAll (FieldPath i nm)]) \<and>
         Index_field (i\<lparr>fieldsByName := AList.delete nm (fieldsByName i)\<rparr>) nm = None) \<and>
      (\<forall>e. outcome env (FieldClose (f_path f)) = Some e \<longrightarrow>
         Index_DeleteField env i nm tr = (Some (Wrapped e ''closing''), i, tr @ [FieldClose (f_path f)])) \<and>
      (\<forall>e. outcome env (FieldClose (f_path f)) = None \<and> outcome env (RemoveAll (FieldPath i nm)) = Some e \<longrightarrow>
         Index_DeleteField env i nm tr =
           (Some (Wrapped e ''removing directory''), i,
            tr @ [FieldClose (f_path f), RemoveAll (FieldPath i nm)])))"
  by (auto simp: Index_DeleteField_def Index_field_def perform_simp AList.delete_conv
       split: option.splits)

text \<open>
  C6 as stated fails where closing the field fails: the field \<open>f1\<close> is registered, the
  call returns the error of the close, the directory is not removed and \<open>f1\<close> is still
  registered.
\<close>

theorem DeleteField_close_fails_counterexample:
  "Index_field index0 ''f1'' = Some (field0 ''i'' ''f1'') \<and>
   fst (Index_DeleteField envCloseFails index0 ''f1'' []) =
     Some (Wrapped (New ''close failed'') ''closing'') \<and>
   Index_field (fst (snd (Index_DeleteField envCloseFails index0 ''f1'' []))) ''f1'' =
     Some (field0 ''i'' ''f1'') \<and>
   snd (snd (Index_DeleteField envCloseFails index0 ''f1'' [])) = [FieldClose ''data/i/f1'']"
  by (simp add: Index_DeleteField_def Index_field_def perform_simp index0_def field0_def
      envCloseFails_def)

theorem DeleteField_steps_witness:
  "Index_DeleteField env0 index0 ''f2'' [] = (None, index0, []) \<and>
   Index_DeleteField env0 index0 ''f1'' [] =
     (None, index0\<lparr>fieldsByName := []\<rparr>, [FieldClose ''data/i/f1'', RemoveAll ''data/i/f1'']) \<and>
   Index_DeleteField envCloseFails index0 ''f1'' [] =
     (Some (Wrapped (New ''close failed'') ''closing''), index0, [FieldClose ''data/i/f1''])"
proof -
  have a: "Index_field index0 ''f2'' = None" by (simp add: Index_field_def index0_def)
  have b: "Index_field index0 ''f1'' = Some (field0 ''i'' ''f1'')"
    by (simp add: Index_field_def index0_def)
  have p: "f_path (field0 ''i'' ''f1'') = ''data/i/f1''" by (simp add: field0_def)
  have q: "FieldPath index0 ''f1'' = ''data/i/f1''"
    by (simp add: FieldPath_def filepath_Join_def filepath_Clean_def cleanElement_def index0_def
        newIndex0_def)
  have d: "AList.delete ''f1'' (fieldsByName index0) = []" by (simp add: index0_def)
  from DeleteField_steps[of index0 "''f2''" env0 "[]"] a
  have 1: "Index_DeleteField env0 index0 ''f2'' [] = (None, index0, [])" by simp
  from DeleteField_steps[of index0 "''f1''" env0 "[]"] b
  have 2: "Index_DeleteField env0 index0 ''f1'' [] =
     (None, index0\<lparr>fieldsByName := []\<rparr>, [FieldClose ''data/i/f1'', RemoveAll ''data/i/f1''])"
    by (simp add: p q d env0_def)
  from DeleteField_steps[of index0 "''f1''" envCloseFails "[]"] b
  have 3: "Index_DeleteField envCloseFails index0 ''f1'' [] =
     (Some (Wrapped (New ''close failed'') ''closing''), index0, [FieldClose ''data/i/f1''])"
    by (simp add: p envCloseFails_def)
  from 1 2 3 show ?thesis by simp
qed













text \<open>
  C9. A name is invalid when it is empty or holds a disallowed character. \<open>NewIndex\<close>
  with an invalid name returns the wrapped validation error and no index.
  \<open>createField\<close> with an invalid name returns an error of the validation of the name or
  of the options, calls no storage and leaves the registry as it was, and so do
  \<open>Index.CreateField\<close> and, for a name not yet registered,
  \<open>Index.CreateFieldIfNotExists\<close>; no call registers a field under the invalid name.
\<close>

theorem invalid_name_rejected:
  assumes "nm = [] \<or> (\<exists>c \<in> set nm. \<not> allowedChar env c)"
  shows "ValidateName env nm = Some ErrName \<and>
         NewIndex env p nm = Inl (Wrapped ErrName ''validating name'') \<and>
         createField env i nm opt tr =
           (Inl (if nm = [] then New ''frame name required''
                 else if CacheType opt \<noteq> [] \<and> \<not> IsValidCacheType env (CacheType opt)
                   then ErrInvalidCacheType
                 else case Options_Validate env opt of
                        Some err \<Rightarrow> Wrapped err ''validating options''
                      | None \<Rightarrow> Wrapped (Wrapped ErrName ''validating name'') ''initializing''),
            i, tr) \<and>
         (\<exists>e. Index_CreateField env i nm opt tr = (Inl e, i, tr)) \<and>
         (map_of (fieldsByName i) nm = None \<longrightarrow>
            (\<exists>e. Index_CreateFieldIfNotExists env i nm opt tr = (Inl e, i, tr))) \<and>
         fst (snd (Index_CreateFieldIfNotExists env i nm opt tr)) = i"
proof -
  have v: "ValidateName env nm = Some ErrName"
    using assms by (auto simp: ValidateName_def list_all_iff)
  have c: "createField env i nm opt tr =
           (Inl (if nm = [] then New ''frame name required''
                 else if CacheType opt \<noteq> [] \<and> \<not> IsValidCacheType env (CacheType opt)
                   then ErrInvalidCacheType
                 else case Options_Validate env opt of
                        Some err \<Rightarrow> Wrapped err ''validating options''
                      | None \<Rightarrow> Wrapped (Wrapped ErrName ''validating name'') ''initializing''),
            i, tr)"
    by (simp add: createField_def newField_def NewField_def v split: option.splits)
  show ?thesis
    using v c
    by (auto simp: NewIndex_def Index_CreateField_def Index_CreateFieldIfNotExists_def
        split: option.splits)
qed

theorem invalid_name_rejected_witness:
  "NewIndex env0 ''data/My Index'' ''My Index'' = Inl (Wrapped ErrName ''validating name'') \<and>
   createField env0 index0 ''f 2'' opt0 [] =
     (Inl (Wrapped (Wrapped ErrName ''validating name'') ''initializing''), index0, []) \<and>
   createField env0 index0 '''' opt0 [] = (Inl (New ''frame name required''), index0, [])"
proof -
  have a: "\<exists>c \<in> set ''My Index''. \<not> allowedChar env0 c"
    by (simp add: env0_def allowed0_def)
  have b: "\<exists>c \<in> set ''f 2''. \<not> allowedChar env0 c"
    by (simp add: env0_def allowed0_def)
  have o: "IsValidCacheType env0 (CacheType opt0)" "Options_Validate env0 opt0 = None"
    by (simp_all add: env0_def opt0_def)
  from invalid_name_rejected[of "''My Index''" env0 "''data/My Index''" index0 opt0 "[]"] a
       invalid_name_rejected[of "''f 2''" env0 "''p''" index0 opt0 "[]"] b
       invalid_name_rejected[of "''''" env0 "''p''" index0 opt0 "[]"] o
  show ?thesis by simp
qed

subsection \<open>Local mutation and broadcast\<close>

lemma createField_success:
  assumes "createField env i nm opt tr = (Inr f, i1, tr1)"
  shows "f = \<lparr>f_path = FieldPath i nm, f_index = name i, f_name = nm, f_options = opt,
              rowAttrStore = NewAttrStore i (filepath_Join [FieldPath i nm, ''.data''])\<rparr> \<and>
         i1 = i\<lparr>fieldsByName := AList.update nm f (fieldsByName i)\<rparr> \<and>
         tr1 = tr @ [FieldOpen (FieldPath i nm), FieldApplyOptions (FieldPath i nm) opt,
                     FieldSaveMeta (FieldPath i nm)]"
  using assms
  by (auto simp: createField_def newField_def NewField_def perform_simp Let_def
      split: if_splits option.splits sum.splits)

lemma Index_CreateField_success:
  assumes "Index_CreateField env i nm opt tr = (Inr f, i1, tr1)"
  shows "Index_Field i1 nm = Some f \<and> f_options f = opt \<and>
         tr1 = tr @ [FieldOpen (FieldPath i nm), FieldApplyOptions (FieldPath i nm) opt,
                     FieldSaveMeta (FieldPath i nm)]"
proof -
  from assms have c: "createField env i nm opt tr = (Inr f, i1, tr1)"
    by (auto simp: Index_CreateField_def split: option.splits)
  from createField_success[OF c] show ?thesis
    by (simp add: Index_Field_def Index_field_def update_conv')
qed

lemma Holder_Index_store: "Holder_Index (Holder_store h n i) n = Some i"
  by (simp add: Holder_Index_def Holder_store_def update_conv')

lemma CreateIndex_broadcast_fails:
  assumes "validate api apiCreateIndex = None"
    and "Holder_CreateIndex env (Holder api) n opts = Inr (idx, h)"
    and "outcome env (SendSync (CreateIndexMessage n (IndexOptions_Encode opts))) = Some e"
  shows "API_CreateIndex env api n opts =
           (Inl (Wrapped e ''sending CreateIndex message''),
            api\<lparr>Holder := h,
                performed := performed api @ [SendSync (CreateIndexMessage n (IndexOptions_Encode opts))]\<rparr>)"
  using assms by (simp add: API_CreateIndex_def perform_simp)

lemma CreateIndex_local_fails:
  assumes "validate api apiCreateIndex = None"
    and "Holder_CreateIndex env (Holder api) n opts = Inl e"
  shows "API_CreateIndex env api n opts = (Inl (Wrapped e ''creating index''), api)"
  using assms by (simp add: API_CreateIndex_def)

lemma DeleteIndex_broadcast_fails:
  assumes "validate api apiDeleteIndex = None"
    and "Holder_DeleteIndex env (Holder api) n = (None, h)"
    and "outcome env (SendSync (DeleteIndexMessage n)) = Some e"
  shows "API_DeleteIndex env api n =
           (Some (Wrapped e ''sending DeleteIndex message''),
            api\<lparr>Holder := h, performed := performed api @ [SendSync (DeleteIndexMessage n)]\<rparr>)"
  using assms by (simp add: API_DeleteIndex_def perform_simp)

lemma DeleteIndex_local_fails:
  assumes "validate api apiDeleteIndex = None"
    and "Holder_DeleteIndex env (Holder api) n = (Some e, h)"
  shows "API_DeleteIndex env api n = (Some (Wrapped e ''deleting index''), api\<lparr>Holder := h\<rparr>)"
  using assms by (simp add: API_DeleteIndex_def)

lemma CreateField_broadcast_fails:
  assumes "validate api apiCreateField = None"
    and "Holder_Index (Holder api) n = Some idx"
    and "Index_CreateField env idx fn opts (performed api) = (Inr fld, idx1, tr)"
    and "outcome env (SendSync (CreateFieldMessage n fn opts)) = Some e"
  shows "API_CreateField env api n fn opts =
           (Inl (Wrapped e ''sending CreateField message''),
            api\<lparr>Holder := Holder_store (Holder api) n idx1,
                performed := performed api @
                  [FieldOpen (FieldPath idx fn), FieldApplyOptions (FieldPath idx fn) opts,
                   FieldSaveMeta (FieldPath idx fn), SendSync (CreateFieldMessage n fn opts)]\<rparr>) \<and>
         Holder_Field (Holder_store (Holder api) n idx1) n fn = Some fld \<and> f_options fld = opts"
  using assms Index_CreateField_success[OF assms(3)]
  by (simp add: API_CreateField_def perform_simp Holder_Field_def Holder_Index_store)

lemma CreateField_local_fails:
  assumes "validate api apiCreateField = None"
    and "Holder_Index (Holder api) n = Some idx"
    and "Index_CreateField env idx fn opts (performed api) = (Inl e, idx1, tr)"
  shows "API_CreateField env api n fn opts =
           (Inl (Wrapped e ''creating field''),
            api\<lparr>Holder := Holder_store (Holder api) n idx1, performed := tr\<rparr>) \<and>
         SendSync (CreateFieldMessage n fn opts) \<notin> set tr - set (performed api)"
proof -
  have "set tr - set (performed api) \<subseteq> {FieldOpen (FieldPath idx fn), FieldApplyOptions (FieldPath idx fn) opts,
           FieldSaveMeta (FieldPath idx fn), FieldClose (FieldPath idx fn)}"
    using assms(3)
    by (auto simp: Index_CreateField_def createField_def newField_def NewField_def perform_simp Let_def
      split: if_splits option.splits sum.splits)
  then show ?thesis using assms by (auto simp add: API_CreateField_def)
qed

lemma DeleteField_broadcast_fails:
  assumes "validate api apiDeleteField = None"
    and "Holder_Index (Holder api) n = Some idx"
    and "Index_DeleteField env idx fn (performed api) = (None, idx1, tr)"
    and "outcome env (SendSync (DeleteFieldMessage n fn)) = Some e"
  shows "API_DeleteField env api n fn =
           (Some (Wrapped e ''sending DeleteField message''),
            api\<lparr>Holder := Holder_store (Holder api) n idx1,
                performed := tr @ [SendSync (DeleteFieldMessage n fn)]\<rparr>) \<and>
         Holder_Field (Holder_store (Holder api) n idx1) n fn = None"
proof -
  have "Index_Field idx1 fn = None"
    using assms(3)
    by (auto simp: Index_DeleteField_def Index_Field_def Index_field_def perform_simp delete_conv
        split: option.splits)
  then show ?thesis
    using assms by (simp add: API_DeleteField_def perform_simp Holder_Field_def Holder_Index_store)
qed

lemma DeleteField_local_fails:
  assumes "validate api apiDeleteField = None"
    and "Holder_Index (Holder api) n = Some idx"
    and "Index_DeleteField env idx fn (performed api) = (Some e, idx1, tr)"
  shows "API_DeleteField env api n fn =
           (Some (Wrapped e ''deleting field''),
            api\<lparr>Holder := Holder_store (Holder api) n idx1, performed := tr\<rparr>) \<and>
         SendSync (DeleteFieldMessage n fn) \<notin> set tr - set (performed api)"
proof -
  have "set tr - set (performed api) \<subseteq> {FieldClose (f_path (the (Index_field idx fn))), RemoveAll (FieldPath idx fn)}"
    using assms(3)
    by (auto simp: Index_DeleteField_def perform_simp split: option.splits)
  then show ?thesis using assms by (auto simp add: API_DeleteField_def)
qed

lemma DeleteView_broadcast_fails:
  assumes "validate api apiDeleteView = None"
    and "Holder_Field (Holder api) n fn = Some f"
    and "outcome env (FieldDeleteView (f_path f) v) = None \<or>
         outcome env (FieldDeleteView (f_path f) v) = Some ErrInvalidView"
    and "outcome env (SendSync (DeleteViewMessage n fn v)) = Some e"
  shows "API_DeleteView env api n fn v =
           (Some (Wrapped e ''sending DeleteView message''),
            api\<lparr>performed := performed api @
                  [FieldDeleteView (f_path f) v, SendSync (DeleteViewMessage n fn v)]\<rparr>)"
  using assms by (auto simp: API_DeleteView_def perform_simp errors_Wrap_def)

lemma DeleteView_local_fails:
  assumes "validate api apiDeleteView = None"
    and "Holder_Field (Holder api) n fn = Some f"
    and "outcome env (FieldDeleteView (f_path f) v) = Some e" and "e \<noteq> ErrInvalidView"
  shows "API_DeleteView env api n fn v =
           (Some (Wrapped e ''deleting view''),
            api\<lparr>performed := performed api @ [FieldDeleteView (f_path f) v]\<rparr>)"
  using assms by (auto simp: API_DeleteView_def perform_simp errors_Wrap_def)

lemma DeleteView_broadcasts:
  assumes "validate api apiDeleteView = None"
    and "Holder_Field (Holder api) n fn = Some f"
    and "outcome env (FieldDeleteView (f_path f) v) = None \<or>
         outcome env (FieldDeleteView (f_path f) v) = Some ErrInvalidView"
  shows "API_DeleteView env api n fn v =
           (errors_Wrap (outcome env (SendSync (DeleteViewMessage n fn v)))
              ''sending DeleteView message'',
            api\<lparr>performed := performed api @
                  [FieldDeleteView (f_path f) v, SendSync (DeleteViewMessage n fn v)]\<rparr>)"
  using assms by (auto simp: API_DeleteView_def perform_simp)

lemma RecalculateCaches_broadcast_first:
  assumes "validate api apiRecalculateCaches = None"
  shows "API_RecalculateCaches env api =
          (case outcome env (SendSync RecalculateCaches) of
             Some e \<Rightarrow> (Some (Wrapped e ''broacasting message''),
                        api\<lparr>performed := performed api @ [SendSync RecalculateCaches]\<rparr>)
           | None \<Rightarrow> (None, api\<lparr>performed :=
                         Holder_RecalculateCaches env (Holder api)
                           (performed api @ [SendSync RecalculateCaches])\<rparr>))"
  using assms by (auto simp: API_RecalculateCaches_def perform_simp split: option.splits)


text \<open>
  C3, as amended. For \<open>CreateIndex\<close>, \<open>DeleteIndex\<close>, \<open>CreateField\<close>, \<open>DeleteField\<close> and
  \<open>DeleteView\<close> the local mutation comes before the broadcast: when the local mutation
  has succeeded and the broadcast fails, the call returns the wrapped error of the
  broadcast and the state keeps the mutation (the holder returned by the holder's
  operation, the index with the created or deleted field, the calls made on the
  field's storage before the \<open>SendSync\<close>); when the local mutation returns an error that
  the operation reports, the call ends there and nothing is broadcast. \<open>DeleteView\<close>
  does not report an \<open>ErrInvalidView\<close> of the field: it goes on to the broadcast as
  after a successful deletion. \<open>RecalculateCaches\<close> broadcasts first: when the broadcast
  fails it returns the error and recalculates nothing locally, and only after a
  successful broadcast does it recalculate the caches of the holder.
\<close>

theorem broadcast_after_local_mutation:
  "(validate api apiCreateIndex = None \<longrightarrow>
      (\<forall>idx h e. Holder_CreateIndex env (Holder api) n opts = Inr (idx, h) \<and>
          outcome env (SendSync (CreateIndexMessage n (IndexOptions_Encode opts))) = Some e \<longrightarrow>
          API_CreateIndex env api n opts =
            (Inl (Wrapped e ''sending CreateIndex message''),
             api\<lparr>Holder := h,
                 performed := performed api @
                   [SendSync (CreateIndexMessage n (IndexOptions_Encode opts))]\<rparr>)) \<and>
      (\<forall>e. Holder_CreateIndex env (Holder api) n opts = Inl e \<longrightarrow>
          API_CreateIndex env api n opts = (Inl (Wrapped e ''creating index''), api))) \<and>
   (validate api apiDeleteIndex = None \<longrightarrow>
      (\<forall>h e. Holder_DeleteIndex env (Holder api) n = (None, h) \<and>
          outcome env (SendSync (DeleteIndexMessage n)) = Some e \<longrightarrow>
          API_DeleteIndex env api n =
            (Some (Wrapped e ''sending DeleteIndex message''),
             api\<lparr>Holder := h, performed := performed api @ [SendSync (DeleteIndexMessage n)]\<rparr>)) \<and>
      (\<forall>h e. Holder_DeleteIndex env (Holder api) n = (Some e, h) \<longrightarrow>
          API_DeleteIndex env api n = (Some (Wrapped e ''deleting index''), api\<lparr>Holder := h\<rparr>))) \<and>
   (validate api apiCreateField = None \<longrightarrow>
      (\<forall>idx fld idx1 tr e. Holder_Index (Holder api) n = Some idx \<and>
          Index_CreateField env idx fn fopts (performed api) = (Inr fld, idx1, tr) \<and>
          outcome env (SendSync (CreateFieldMessage n fn fopts)) = Some e \<longrightarrow>
          API_CreateField env api n fn fopts =
            (Inl (Wrapped e ''sending CreateField message''),
             api\<lparr>Holder := Holder_store (Holder api) n idx1,
                 performed := performed api @
                   [FieldOpen (FieldPath idx fn), FieldApplyOptions (FieldPath idx fn) fopts,
                    FieldSaveMeta (FieldPath idx fn), SendSync (CreateFieldMessage n fn fopts)]\<rparr>) \<and>
          Holder_Field (Holder_store (Holder api) n idx1) n fn = Some fld \<and> f_options fld = fopts) \<and>
      (\<forall>idx idx1 tr e. Holder_Index (Holder api) n = Some idx \<and>
          Index_CreateField env idx fn fopts (performed api) = (Inl e, idx1, tr) \<longrightarrow>
          API_CreateField env api n fn fopts =
            (Inl (Wrapped e ''creating field''),
             api\<lparr>Holder := Holder_store (Holder api) n idx1, performed := tr\<rparr>) \<and>
          SendSync (CreateFieldMessage n fn fopts) \<notin> set tr - set (performed api))) \<and>
   (validate api apiDeleteField = None \<longrightarrow>
      (\<forall>idx idx1 tr e. Holder_Index (Holder api) n = Some idx \<and>
          Index_DeleteField env idx fn (performed api) = (None, idx1, tr) \<and>
          outcome env (SendSync (DeleteFieldMessage n fn)) = Some e \<longrightarrow>
          API_DeleteField env api n fn =
            (Some (Wrapped e ''sending DeleteField message''),
             api\<lparr>Holder := Holder_store (Holder api) n idx1,
                 performed := tr @ [SendSync (DeleteFieldMessage n fn)]\<rparr>) \<and>
          Holder_Field (Holder_store (Holder api) n idx1) n fn = None) \<and>
      (\<forall>idx idx1 tr e. Holder_Index (Holder api) n = Some idx \<and>
          Index_DeleteField env idx fn (performed api) = (Some e, idx1, tr) \<longrightarrow>
          API_DeleteField env api n fn =
            (Some (Wrapped e ''deleting field''),
             api\<lparr>Holder := Holder_store (Holder api) n idx1, performed := tr\<rparr>) \<and>
          SendSync (DeleteFieldMessage n fn) \<notin> set tr - set (performed api))) \<and>
   (validate api apiDeleteView = None \<longrightarrow>
      (\<forall>f e. Holder_Field (Holder api) n fn = Some f \<and>
          (outcome env (FieldDeleteView (f_path f) v) = None \<or>
           outcome env (FieldDeleteView (f_path f) v) = Some ErrInvalidView) \<and>
          outcome env (SendSync (DeleteViewMessage n fn v)) = Some e \<longrightarrow>
          API_DeleteView env api n fn v =
            (Some (Wrapped e ''sending DeleteView message''),
             api\<lparr>performed := performed api @
                   [FieldDeleteView (f_path f) v, SendSync (DeleteViewMessage n fn v)]\<rparr>)) \<and>
      (\<forall>f e. Holder_Field (Holder api) n fn = Some f \<and>
          outcome env (FieldDeleteView (f_path f) v) = Some e \<and> e \<noteq> ErrInvalidView \<longrightarrow>
          API_DeleteView env api n fn v =
            (Some (Wrapped e ''deleting view''),
             api\<lparr>performed := performed api @ [FieldDeleteView (f_path f) v]\<rparr>)) \<and>
      (\<forall>f. Holder_Field (Holder api) n fn = Some f \<and>
          (outcome env (FieldDeleteView (f_path f) v) = None \<or>
           outcome env (FieldDeleteView (f_path f) v) = Some ErrInvalidView) \<longrightarrow>
          API_DeleteView env api n fn v =
            (errors_Wrap (outcome env (SendSync (DeleteViewMessage n fn v)))
               ''sending DeleteView message'',
             api\<lparr>performed := performed api @
                   [FieldDeleteView (f_path f) v, SendSync (DeleteViewMessage n fn v)]\<rparr>))) \<and>
   (validate api apiRecalculateCaches = None \<longrightarrow>
      API_RecalculateCaches env api =
        (case outcome env (SendSync RecalculateCaches) of
           Some e \<Rightarrow> (Some (Wrapped e ''broacasting message''),
                      api\<lparr>performed := performed api @ [SendSync RecalculateCaches]\<rparr>)
         | None \<Rightarrow> (None, api\<lparr>performed :=
                       Holder_RecalculateCaches env (Holder api)
                         (performed api @ [SendSync RecalculateCaches])\<rparr>)))"
proof (intro conjI impI allI)
  fix idx h e
  assume "validate api apiCreateIndex = None"
    and "Holder_CreateIndex env (Holder api) n opts = Inr (idx, h) \<and>
          outcome env (SendSync (CreateIndexMessage n (IndexOptions_Encode opts))) = Some e"
  then show "API_CreateIndex env api n opts =
            (Inl (Wrapped e ''sending CreateIndex message''),
             api\<lparr>Holder := h,
                 performed := performed api @
                   [SendSync (CreateIndexMessage n (IndexOptions_Encode opts))]\<rparr>)"
    using CreateIndex_broadcast_fails by blast
next
  fix e
  assume "validate api apiCreateIndex = None" "Holder_CreateIndex env (Holder api) n opts = Inl e"
  then show "API_CreateIndex env api n opts = (Inl (Wrapped e ''creating index''), api)"
    by (rule CreateIndex_local_fails)
next
  fix h e
  assume "validate api apiDeleteIndex = None"
    and "Holder_DeleteIndex env (Holder api) n = (None, h) \<and>
          outcome env (SendSync (DeleteIndexMessage n)) = Some e"
  then show "API_DeleteIndex env api n =
            (Some (Wrapped e ''sending DeleteIndex message''),
             api\<lparr>Holder := h, performed := performed api @ [SendSync (DeleteIndexMessage n)]\<rparr>)"
    using DeleteIndex_broadcast_fails by blast
next
  fix h e
  assume "validate api apiDeleteIndex = None" "Holder_DeleteIndex env (Holder api) n = (Some e, h)"
  then show "API_DeleteIndex env api n = (Some (Wrapped e ''deleting index''), api\<lparr>Holder := h\<rparr>)"
    by (rule DeleteIndex_local_fails)
next
  fix idx fld idx1 tr e
  assume v: "validate api apiCreateField = None"
    and h: "Holder_Index (Holder api) n = Some idx \<and>
          Index_CreateField env idx fn fopts (performed api) = (Inr fld, idx1, tr) \<and>
          outcome env (SendSync (CreateFieldMessage n fn fopts)) = Some e"
  from h have h1: "Holder_Index (Holder api) n = Some idx"
    and h2: "Index_CreateField env idx fn fopts (performed api) = (Inr fld, idx1, tr)"
    and h3: "outcome env (SendSync (CreateFieldMessage n fn fopts)) = Some e" by simp_all
  note r = CreateField_broadcast_fails[OF v h1 h2 h3]
  from r show "API_CreateField env api n fn fopts =
            (Inl (Wrapped e ''sending CreateField message''),
             api\<lparr>Holder := Holder_store (Holder api) n idx1,
                 performed := performed api @
                   [FieldOpen (FieldPath idx fn), FieldApplyOptions (FieldPath idx fn) fopts,
                    FieldSaveMeta (FieldPath idx fn), SendSync (CreateFieldMessage n fn fopts)]\<rparr>)"
    by simp
  from r show "Holder_Field (Holder_store (Holder api) n idx1) n fn = Some fld" by simp
  from r show "f_options fld = fopts" by simp
next
  fix idx idx1 tr e
  assume v: "validate api apiCreateField = None"
    and h: "Holder_Index (Holder api) n = Some idx \<and>
          Index_CreateField env idx fn fopts (performed api) = (Inl e, idx1, tr)"
  from h have h1: "Holder_Index (Holder api) n = Some idx"
    and h2: "Index_CreateField env idx fn fopts (performed api) = (Inl e, idx1, tr)" by simp_all
  note r = CreateField_local_fails[OF v h1 h2]
  from r show "API_CreateField env api n fn fopts =
            (Inl (Wrapped e ''creating field''),
             api\<lparr>Holder := Holder_store (Holder api) n idx1, performed := tr\<rparr>)" by simp
  from r show "SendSync (CreateFieldMessage n fn fopts) \<notin> set tr - set (performed api)" by simp
next
  fix idx idx1 tr e
  assume v: "validate api apiDeleteField = None"
    and h: "Holder_Index (Holder api) n = Some idx \<and>
          Index_DeleteField env idx fn (performed api) = (None, idx1, tr) \<and>
          outcome env (SendSync (DeleteFieldMessage n fn)) = Some e"
  from h have h1: "Holder_Index (Holder api) n = Some idx"
    and h2: "Index_DeleteField env idx fn (performed api) = (None, idx1, tr)"
    and h3: "outcome env (SendSync (DeleteFieldMessage n fn)) = Some e" by simp_all
  note r = DeleteField_broadcast_fails[OF v h1 h2 h3]
  from r show "API_DeleteField env api n fn =
            (Some (Wrapped e ''sending DeleteField message''),
             api\<lparr>Holder := Holder_store (Holder api) n idx1,
                 performed := tr @ [SendSync (DeleteFieldMessage n fn)]\<rparr>)" by simp
  from r show "Holder_Field (Holder_store (Holder api) n idx1) n fn = None" by simp
next
  fix idx idx1 tr e
  assume v: "validate api apiDeleteField = None"
    and h: "Holder_Index (Holder api) n = Some idx \<and>
          Index_DeleteField env idx fn (performed api) = (Some e, idx1, tr)"
  from h have h1: "Holder_Index (Holder api) n = Some idx"
    and h2: "Index_DeleteField env idx fn (performed api) = (Some e, idx1, tr)" by simp_all
  note r = DeleteField_local_fails[OF v h1 h2]
  from r show "API_DeleteField env api n fn =
            (Some (Wrapped e ''deleting field''),
             api\<lparr>Holder := Holder_store (Holder api) n idx1, performed := tr\<rparr>)" by simp
  from r show "SendSync (DeleteFieldMessage n fn) \<notin> set tr - set (performed api)" by simp
next
  fix f e
  assume v: "validate api apiDeleteView = None"
    and h: "Holder_Field (Holder api) n fn = Some f \<and>
          (outcome env (FieldDeleteView (f_path f) v) = None \<or>
           outcome env (FieldDeleteView (f_path f) v) = Some ErrInvalidView) \<and>
          outcome env (SendSync (DeleteViewMessage n fn v)) = Some e"
  from h have h1: "Holder_Field (Holder api) n fn = Some f"
    and h2: "outcome env (FieldDeleteView (f_path f) v) = None \<or>
           outcome env (FieldDeleteView (f_path f) v) = Some ErrInvalidView"
    and h3: "outcome env (SendSync (DeleteViewMessage n fn v)) = Some e" by simp_all
  show "API_DeleteView env api n fn v =
            (Some (Wrapped e ''sending DeleteView message''),
             api\<lparr>performed := performed api @
                   [FieldDeleteView (f_path f) v, SendSync (DeleteViewMessage n fn v)]\<rparr>)"
    by (rule DeleteView_broadcast_fails[OF v h1 h2 h3])
next
  fix f e
  assume v: "validate api apiDeleteView = None"
    and h: "Holder_Field (Holder api) n fn = Some f \<and>
          outcome env (FieldDeleteView (f_path f) v) = Some e \<and> e \<noteq> ErrInvalidView"
  from h have h1: "Holder_Field (Holder api) n fn = Some f"
    and h2: "outcome env (FieldDeleteView (f_path f) v) = Some e" and h3: "e \<noteq> ErrInvalidView"
    by simp_all
  show "API_DeleteView env api n fn v =
            (Some (Wrapped e ''deleting view''),
             api\<lparr>performed := performed api @ [FieldDeleteView (f_path f) v]\<rparr>)"
    by (rule DeleteView_local_fails[OF v h1 h2 h3])
next
  fix f
  assume v: "validate api apiDeleteView = None"
    and h: "Holder_Field (Holder api) n fn = Some f \<and>
          (outcome env (FieldDeleteView (f_path f) v) = None \<or>
           outcome env (FieldDeleteView (f_path f) v) = Some ErrInvalidView)"
  from h have h1: "Holder_Field (Holder api) n fn = Some f"
    and h2: "outcome env (FieldDeleteView (f_path f) v) = None \<or>
           outcome env (FieldDeleteView (f_path f) v) = Some ErrInvalidView" by simp_all
  show "API_DeleteView env api n fn v =
            (errors_Wrap (outcome env (SendSync (DeleteViewMessage n fn v)))
               ''sending DeleteView message'',
             api\<lparr>performed := performed api @
                   [FieldDeleteView (f_path f) v, SendSync (DeleteViewMessage n fn v)]\<rparr>)"
    by (rule DeleteView_broadcasts[OF v h1 h2])
next
  assume "validate api apiRecalculateCaches = None"
  then show "API_RecalculateCaches env api =
        (case outcome env (SendSync RecalculateCaches) of
           Some e \<Rightarrow> (Some (Wrapped e ''broacasting message''),
                      api\<lparr>performed := performed api @ [SendSync RecalculateCaches]\<rparr>)
         | None \<Rightarrow> (None, api\<lparr>performed :=
                       Holder_RecalculateCaches env (Holder api)
                         (performed api @ [SendSync RecalculateCaches])\<rparr>))"
    by (rule RecalculateCaches_broadcast_first)
qed


lemma dom_methodsNormal:
  "dom methodsNormal =
     {apiCreateField, apiCreateIndex, apiDeleteField, apiDeleteIndex, apiDeleteView,
      apiExportCSV, apiFragmentBlockData, apiFragmentBlocks, apiFieldAttrDiff, apiImport,
      apiImportValue, apiIndex, apiIndexAttrDiff, apiQuery, apiRecalculateCaches,
      apiRemoveNode, apiSliceNodes, apiUnmarshalFragment, apiViews}"
  by (auto simp: methodsNormal_def split: if_splits)

lemma validate_Normal:
  assumes "Cluster_State (Cluster api) = ''NORMAL''"
  shows "validate api f = None \<longleftrightarrow> f \<in> dom methodsCommon \<union> dom methodsNormal"
  using assms validAPIMethods_Normal
  by (simp add: validate_cases dom_appendMap ClusterStateNormal_def)

lemma api1_state: "Cluster_State (Cluster (api1 S)) = S"
  by (simp add: api1_def cluster0_def Cluster_State_def)

lemma validate_api1_Normal:
  "validate (api1 ''NORMAL'') apiCreateIndex = None"
  "validate (api1 ''NORMAL'') apiDeleteIndex = None"
  "validate (api1 ''NORMAL'') apiCreateField = None"
  "validate (api1 ''NORMAL'') apiDeleteField = None"
  "validate (api1 ''NORMAL'') apiDeleteView = None"
  "validate (api1 ''NORMAL'') apiRecalculateCaches = None"
  "validate (api1 ''NORMAL'') apiImport = None"
  "validate (api1 ''NORMAL'') apiImportValue = None"
  "validate (api1 ''NORMAL'') apiExportCSV = None"
  "validate (api1 ''NORMAL'') apiIndexAttrDiff = None"
  "validate (api1 ''NORMAL'') apiFieldAttrDiff = None"
  by (simp_all add: validate_Normal[OF api1_state] dom_methodsNormal)

text \<open>
  C3 as stated fails for \<open>RecalculateCaches\<close>: with a failing broadcast the message has
  been sent and no cache has been recalculated, and with a working one the message is
  sent before the field's caches are recalculated.
\<close>

theorem RecalculateCaches_broadcast_first_counterexample:
  "validate (api1 ''NORMAL'') apiRecalculateCaches = None \<and>
   API_RecalculateCaches envBroadcastFails (api1 ''NORMAL'') =
     (Some (Wrapped (New ''node unreachable'') ''broacasting message''),
      (api1 ''NORMAL'')\<lparr>performed := [SendSync RecalculateCaches]\<rparr>) \<and>
   API_RecalculateCaches env0 (api1 ''NORMAL'') =
     (None, (api1 ''NORMAL'')\<lparr>performed :=
        [SendSync RecalculateCaches, FieldRecalculateCaches ''data/i/f1'']\<rparr>)"
proof -
  have p: "performed (api1 ''NORMAL'') = []" by (simp add: api1_def)
  have o: "outcome envBroadcastFails (SendSync RecalculateCaches) = Some (New ''node unreachable'')"
    by (simp add: envBroadcastFails_def)
  have a: "API_RecalculateCaches envBroadcastFails (api1 ''NORMAL'') =
     (Some (Wrapped (New ''node unreachable'') ''broacasting message''),
      (api1 ''NORMAL'')\<lparr>performed := [SendSync RecalculateCaches]\<rparr>)"
    by (simp add: API_RecalculateCaches_def validate_api1_Normal perform_simp o p)
  have f: "Index_Fields env0 index0 = [field0 ''i'' ''f1'']"
    by (simp add: Index_Fields_def sort_Sort_def index0_def)
  have h: "Holder_RecalculateCaches env0 (Holder (api1 ''NORMAL'')) [SendSync RecalculateCaches] =
        [SendSync RecalculateCaches, FieldRecalculateCaches ''data/i/f1'']"
    by (simp add: Holder_RecalculateCaches_def Index_RecalculateCaches_def f perform_simp api1_def
        field0_def)
  have o0: "outcome env0 (SendSync RecalculateCaches) = None"
    by (simp add: env0_def)
  have b: "API_RecalculateCaches env0 (api1 ''NORMAL'') =
     (None, (api1 ''NORMAL'')\<lparr>performed :=
        [SendSync RecalculateCaches, FieldRecalculateCaches ''data/i/f1'']\<rparr>)"
    by (simp add: API_RecalculateCaches_def validate_api1_Normal perform_simp o0 p h)
  from a b validate_api1_Normal show ?thesis by simp
qed

theorem broadcast_after_local_mutation_witness:
  "API_CreateIndex envBroadcastFails (api1 ''NORMAL'') ''j'' IndexOptions =
     (Inl (Wrapped (New ''node unreachable'') ''sending CreateIndex message''),
      (api1 ''NORMAL'')\<lparr>Holder := \<lparr>indexes = [(''i'', index0), (''j'', newIndex0 ''j'')]\<rparr>,
                        performed := [SendSync (CreateIndexMessage ''j'' IndexMeta)]\<rparr>) \<and>
   API_DeleteField envBroadcastFails (api1 ''NORMAL'') ''i'' ''f1'' =
     (Some (Wrapped (New ''node unreachable'') ''sending DeleteField message''),
      (api1 ''NORMAL'')\<lparr>Holder := \<lparr>indexes = [(''i'', index0\<lparr>fieldsByName := []\<rparr>)]\<rparr>,
                        performed := [FieldClose ''data/i/f1'', RemoveAll ''data/i/f1'',
                                      SendSync (DeleteFieldMessage ''i'' ''f1'')]\<rparr>) \<and>
   API_RecalculateCaches envBroadcastFails (api1 ''NORMAL'') =
     (Some (Wrapped (New ''node unreachable'') ''broacasting message''),
      (api1 ''NORMAL'')\<lparr>performed := [SendSync RecalculateCaches]\<rparr>) \<and>
   API_DeleteView envInvalidView (api1 ''NORMAL'') ''i'' ''f1'' ''standard'' =
     (None,
      (api1 ''NORMAL'')\<lparr>performed := [FieldDeleteView ''data/i/f1'' ''standard'',
                                      SendSync (DeleteViewMessage ''i'' ''f1'' ''standard'')]\<rparr>)"
proof -
  have h1: "Holder_CreateIndex envBroadcastFails (Holder (api1 ''NORMAL'')) ''j'' IndexOptions =
        Inr (newIndex0 ''j'', \<lparr>indexes = [(''i'', index0), (''j'', newIndex0 ''j'')]\<rparr>)"
    by (simp add: envBroadcastFails_def env0_def api1_def)
  have o: "\<And>m. outcome envBroadcastFails (SendSync m) = Some (New ''node unreachable'')"
    by (simp add: envBroadcastFails_def)
  have h2: "Holder_Index (Holder (api1 ''NORMAL'')) ''i'' = Some index0"
    by (simp add: Holder_Index_def api1_def)
  have h3: "Index_DeleteField envBroadcastFails index0 ''f1'' (performed (api1 ''NORMAL'')) =
        (None, index0\<lparr>fieldsByName := []\<rparr>, [FieldClose ''data/i/f1'', RemoveAll ''data/i/f1''])"
    by (simp add: Index_DeleteField_def Index_field_def perform_simp envBroadcastFails_def env0_def
        index0_def field0_def FieldPath_def filepath_Join_def filepath_Clean_def cleanElement_def
        newIndex0_def api1_def)
  have s: "Holder_store (Holder (api1 ''NORMAL'')) ''i'' (index0\<lparr>fieldsByName := []\<rparr>) =
        \<lparr>indexes = [(''i'', index0\<lparr>fieldsByName := []\<rparr>)]\<rparr>"
    by (simp add: Holder_store_def api1_def)
  have p: "performed (api1 ''NORMAL'') = []" by (simp add: api1_def)
  from broadcast_after_local_mutation[where api="api1 ''NORMAL''" and env=envBroadcastFails
        and n="''j''" and opts=IndexOptions]
       validate_api1_Normal h1 o p
  have 1: "API_CreateIndex envBroadcastFails (api1 ''NORMAL'') ''j'' IndexOptions =
     (Inl (Wrapped (New ''node unreachable'') ''sending CreateIndex message''),
      (api1 ''NORMAL'')\<lparr>Holder := \<lparr>indexes = [(''i'', index0), (''j'', newIndex0 ''j'')]\<rparr>,
                        performed := [SendSync (CreateIndexMessage ''j'' IndexMeta)]\<rparr>)"
    by (simp add: IndexOptions_Encode_def)
  from broadcast_after_local_mutation[where api="api1 ''NORMAL''" and env=envBroadcastFails
        and n="''i''" and fn="''f1''"]
       validate_api1_Normal h2 h3 o s
  have 2: "API_DeleteField envBroadcastFails (api1 ''NORMAL'') ''i'' ''f1'' =
     (Some (Wrapped (New ''node unreachable'') ''sending DeleteField message''),
      (api1 ''NORMAL'')\<lparr>Holder := \<lparr>indexes = [(''i'', index0\<lparr>fieldsByName := []\<rparr>)]\<rparr>,
                        performed := [FieldClose ''data/i/f1'', RemoveAll ''data/i/f1'',
                                      SendSync (DeleteFieldMessage ''i'' ''f1'')]\<rparr>)"
    by simp
  from broadcast_after_local_mutation[where api="api1 ''NORMAL''" and env=envBroadcastFails]
       validate_api1_Normal o p
  have 3: "API_RecalculateCaches envBroadcastFails (api1 ''NORMAL'') =
     (Some (Wrapped (New ''node unreachable'') ''broacasting message''),
      (api1 ''NORMAL'')\<lparr>performed := [SendSync RecalculateCaches]\<rparr>)"
    by simp
  have hf: "Holder_Field (Holder (api1 ''NORMAL'')) ''i'' ''f1'' = Some (field0 ''i'' ''f1'')"
    by (simp add: Holder_Field_def Holder_Index_def Index_Field_def Index_field_def api1_def
        index0_def)
  have fp: "f_path (field0 ''i'' ''f1'') = ''data/i/f1''" by (simp add: field0_def)
  have ov: "outcome envInvalidView (FieldDeleteView ''data/i/f1'' ''standard'') =
              Some ErrInvalidView"
    "outcome envInvalidView (SendSync (DeleteViewMessage ''i'' ''f1'' ''standard'')) = None"
    by (simp_all add: envInvalidView_def env0_def)
  from broadcast_after_local_mutation[where api="api1 ''NORMAL''" and env=envInvalidView
        and n="''i''" and fn="''f1''" and v="''standard''"]
       validate_api1_Normal hf fp ov p
  have 4: "API_DeleteView envInvalidView (api1 ''NORMAL'') ''i'' ''f1'' ''standard'' =
     (None,
      (api1 ''NORMAL'')\<lparr>performed := [FieldDeleteView ''data/i/f1'' ''standard'',
                                      SendSync (DeleteViewMessage ''i'' ''f1'' ''standard'')]\<rparr>)"
    by (simp add: errors_Wrap_def)
  from 1 2 3 4 show ?thesis by simp
qed

subsection \<open>Slice ownership\<close>

lemma validate_Holder_update: "validate (api\<lparr>Holder := h\<rparr>) f = validate api f"
  by (simp add: validate_def)

text \<open>
  C4, as amended. When the local node is not among the owners of the slice, \<open>Import\<close>,
  \<open>ImportValue\<close> and \<open>ExportCSV\<close> fail without any change of the state and without any
  call on a collaborator, whatever the holder contains (the index and the field are
  not looked up): with the method-not-allowed error when the cluster state does not
  admit the method, and otherwise with \<open>ErrClusterDoesNotOwnSlice\<close>, which \<open>ExportCSV\<close>
  returns as it is and \<open>Import\<close> and \<open>ImportValue\<close> wrap as "getting field".
\<close>

theorem not_owner_rejected:
  assumes "\<not> ownsSlice (Cluster api) (LocalID api) indexName slc"
  shows "indexField (api\<lparr>Holder := h\<rparr>) indexName fieldName slc = Inl ErrClusterDoesNotOwnSlice \<and>
    (ImportRequest.Index req = indexName \<and> ImportRequest.Slice req = slc \<longrightarrow>
       API_Import env (api\<lparr>Holder := h\<rparr>) req =
         (case validate api apiImport of
            Some err \<Rightarrow> (Some (Wrapped err ''validating api method''), api\<lparr>Holder := h\<rparr>)
          | None \<Rightarrow> (Some (Wrapped ErrClusterDoesNotOwnSlice ''getting field''), api\<lparr>Holder := h\<rparr>))) \<and>
    (ImportValueRequest.Index vreq = indexName \<and> ImportValueRequest.Slice vreq = slc \<longrightarrow>
       API_ImportValue env (api\<lparr>Holder := h\<rparr>) vreq =
         (case validate api apiImportValue of
            Some err \<Rightarrow> (Some (Wrapped err ''validating api method''), api\<lparr>Holder := h\<rparr>)
          | None \<Rightarrow> (Some (Wrapped ErrClusterDoesNotOwnSlice ''getting field''), api\<lparr>Holder := h\<rparr>))) \<and>
    API_ExportCSV env (api\<lparr>Holder := h\<rparr>) indexName fieldName slc =
      (case validate api apiExportCSV of
         Some err \<Rightarrow> (Some (Wrapped err ''validating api method''), api\<lparr>Holder := h\<rparr>)
       | None \<Rightarrow> (Some ErrClusterDoesNotOwnSlice, api\<lparr>Holder := h\<rparr>)) \<and>
    errors_Cause (Wrapped ErrClusterDoesNotOwnSlice ''getting field'') = ErrClusterDoesNotOwnSlice"
proof -
  have o: "\<not> ownsSlice (Cluster (api\<lparr>Holder := h\<rparr>)) (LocalID (api\<lparr>Holder := h\<rparr>)) indexName slc"
    using assms by (simp add: LocalID_def)
  then have i: "\<And>fieldName. indexField (api\<lparr>Holder := h\<rparr>) indexName fieldName slc =
      Inl ErrClusterDoesNotOwnSlice"
    by (simp add: indexField_def)
  show ?thesis
    using o i
    by (auto simp: API_Import_def API_ImportValue_def API_ExportCSV_def validate_Holder_update
        split: option.splits)
qed

text \<open>
  C4 as stated fails in the \<open>RESIZING\<close> state: the local node does not own slice 1, and
  \<open>Import\<close> fails with the method-not-allowed error, not with
  \<open>ErrClusterDoesNotOwnSlice\<close>.
\<close>

theorem not_owner_in_resizing_counterexample:
  "\<not> ownsSlice (Cluster (api1 ''RESIZING'')) (LocalID (api1 ''RESIZING''))
       (ImportRequest.Index req1) (ImportRequest.Slice req1) \<and>
   API_Import env0 (api1 ''RESIZING'') req1 =
     (Some (Wrapped (ApiMethodNotAllowedError
              (New ''api method apiImport not allowed in state RESIZING''))
            ''validating api method''), api1 ''RESIZING'') \<and>
   errors_Cause (Wrapped (ApiMethodNotAllowedError
              (New ''api method apiImport not allowed in state RESIZING''))
            ''validating api method'') \<noteq> ErrClusterDoesNotOwnSlice"
proof -
  have o: "\<not> ownsSlice (Cluster (api1 ''RESIZING'')) (LocalID (api1 ''RESIZING''))
       (ImportRequest.Index req1) (ImportRequest.Slice req1)"
    by (simp add: ownsSlice_def LocalID_def api1_def cluster0_def req1_def)
  have v: "validate (api1 ''RESIZING'') apiImport = Some (ApiMethodNotAllowedError
              (New ''api method apiImport not allowed in state RESIZING''))"
    using validAPIMethods_Resizing
    by (simp add: validate_cases api1_state ClusterStateResizing_def dom_appendMap
        dom_methodsCommon dom_methodsResizing)
  show ?thesis using o v by (simp add: API_Import_def)
qed

theorem not_owner_rejected_witness:
  "API_Import env0 (api1 ''NORMAL'') req1 =
     (Some (Wrapped ErrClusterDoesNotOwnSlice ''getting field''), api1 ''NORMAL'') \<and>
   API_ImportValue env0 (api1 ''NORMAL'') vreq1 =
     (Some (Wrapped ErrClusterDoesNotOwnSlice ''getting field''), api1 ''NORMAL'') \<and>
   API_ExportCSV env0 (api1 ''NORMAL'') ''i'' ''f1'' 1 =
     (Some ErrClusterDoesNotOwnSlice, api1 ''NORMAL'') \<and>
   API_Import env0 (api1 ''RESIZING'') req1 =
     (Some (Wrapped (ApiMethodNotAllowedError
              (New ''api method apiImport not allowed in state RESIZING''))
            ''validating api method''), api1 ''RESIZING'')"
proof -
  have o: "\<And>S. \<not> ownsSlice (Cluster (api1 S)) (LocalID (api1 S)) ''i'' 1"
    by (simp add: ownsSlice_def LocalID_def api1_def cluster0_def)
  have r: "ImportRequest.Index req1 = ''i''" "ImportRequest.Slice req1 = 1"
    "ImportValueRequest.Index vreq1 = ''i''" "ImportValueRequest.Slice vreq1 = 1"
    by (simp_all add: req1_def vreq1_def)
  have h: "\<And>S. (api1 S)\<lparr>Holder := Holder (api1 S)\<rparr> = api1 S" by simp
  have v: "validate (api1 ''RESIZING'') apiImport = Some (ApiMethodNotAllowedError
              (New ''api method apiImport not allowed in state RESIZING''))"
    using validAPIMethods_Resizing
    by (simp add: validate_cases api1_state ClusterStateResizing_def dom_appendMap
        dom_methodsCommon dom_methodsResizing)
  from not_owner_rejected[OF o[of "''NORMAL''"], where h="Holder (api1 ''NORMAL'')"
         and fieldName="''f1''" and req=req1 and env=env0 and vreq=vreq1]
       not_owner_rejected[OF o[of "''RESIZING''"], where h="Holder (api1 ''RESIZING'')"
         and fieldName="''f1''" and req=req1 and env=env0 and vreq=vreq1]
       r validate_api1_Normal v
  show ?thesis by (simp add: h)
qed

subsection \<open>Import timestamps\<close>

lemma go_quot_nonneg: "0 \<le> a \<Longrightarrow> 0 < b \<Longrightarrow> go_quot a b = a div b"
  by (cases "a = 0") (simp_all add: go_quot_def)

lemma go_quot_neg: "a < 0 \<Longrightarrow> 0 < b \<Longrightarrow> go_quot a b = - ((- a) div b)"
  by (simp add: go_quot_def)

lemma time_Unix_nanos:
  "UnixNano (time_Unix 0 n) = n \<and> 0 \<le> nsec (time_Unix 0 n) \<and> nsec (time_Unix 0 n) < 1000000000"
proof -
  consider "n < 0" | "0 \<le> n" "n < 1000000000" | "1000000000 \<le> n" by linarith
  then show ?thesis
  proof cases
    case 1
    define q where "q = (- n) div 1000000000"
    define r where "r = (- n) mod 1000000000"
    have n: "n = - (q * 1000000000 + r)" by (simp add: q_def r_def)
    have r: "0 \<le> r" "r < 1000000000" by (simp_all add: r_def)
    have g: "go_quot n 1000000000 = - q" using 1 by (simp add: go_quot_neg q_def)
    have ns1: "n - (- q) * 1000000000 = - r" using n by simp
    show ?thesis
      using 1 r unfolding time_Unix_def UnixNano_def Let_def g ns1
      by (auto simp: n)
  next
    case 2
    then show ?thesis by (simp add: time_Unix_def UnixNano_def)
  next
    case 3
    define q where "q = n div 1000000000"
    define r where "r = n mod 1000000000"
    have n: "n = q * 1000000000 + r" by (simp add: q_def r_def)
    have r: "0 \<le> r" "r < 1000000000" by (simp_all add: r_def)
    have g: "go_quot n 1000000000 = q" using 3 by (simp add: go_quot_nonneg q_def)
    have ns1: "n - q * 1000000000 = r" using n by simp
    show ?thesis
      using 3 r unfolding time_Unix_def UnixNano_def Let_def g ns1
      by (auto simp: n)
  qed
qed



lemma length_convertTimestamps: "length (convertTimestamps i tss acc) = length acc"
  by (induction tss arbitrary: i acc) auto

lemma nth_convertTimestamps:
  assumes "i + length tss \<le> length acc" and "k < length acc"
  shows "convertTimestamps i tss acc ! k =
           (if i \<le> k \<and> k < i + length tss \<and> tss ! (k - i) \<noteq> 0
            then Some (time_Unix 0 (sint (tss ! (k - i)))) else acc ! k)"
  using assms
proof (induction tss arbitrary: i acc)
  case Nil
  then show ?case by auto
next
  case (Cons ts rest)
  show ?case
  proof (cases "k = i")
    case True
    with Cons show ?thesis by simp
  next
    case False
    with Cons show ?thesis by (auto simp: nth_Cons' nth_list_update Suc_diff_le)
  qed
qed

lemma convertTimestamps_map:
  "convertTimestamps 0 tss (replicate (length tss) None) = map timestampToTime tss"
  by (rule nth_equalityI)
     (simp_all add: length_convertTimestamps nth_convertTimestamps timestampToTime_def)

text \<open>
  C7. \<open>Import\<close> fails without a call when validation or the lookup of the field fails,
  and otherwise calls the field's import routine once, with the row ids and the
  column ids of the request and with one timestamp entry per entry of the request's
  timestamp array: no timestamp where the request has zero, and otherwise the time
  value of exactly that many nanoseconds since the Unix epoch (its nanosecond part
  within a second).
\<close>

theorem Import_converts_timestamps:
  "API_Import env api req =
     (case validate api apiImport of
        Some err \<Rightarrow> (Some (Wrapped err ''validating api method''), api)
      | None \<Rightarrow>
       (case indexField api (ImportRequest.Index req) (ImportRequest.Field req)
               (ImportRequest.Slice req) of
          Inl err \<Rightarrow> (Some (Wrapped err ''getting field''), api)
        | Inr (idx, fld) \<Rightarrow>
            (errors_Wrap
               (outcome env (FieldImport (f_path fld) (RowIDs req) (ImportRequest.ColumnIDs req)
                               (map timestampToTime (Timestamps req))))
               ''importing'',
             api\<lparr>performed := performed api @
                   [FieldImport (f_path fld) (RowIDs req) (ImportRequest.ColumnIDs req)
                      (map timestampToTime (Timestamps req))]\<rparr>))) \<and>
   length (map timestampToTime (Timestamps req)) = length (Timestamps req) \<and>
   (\<forall>i < length (Timestamps req).
      (Timestamps req ! i = 0 \<longrightarrow> map timestampToTime (Timestamps req) ! i = None) \<and>
      (Timestamps req ! i \<noteq> 0 \<longrightarrow>
         (\<exists>t. map timestampToTime (Timestamps req) ! i = Some t \<and>
              UnixNano t = sint (Timestamps req ! i) \<and> 0 \<le> nsec t \<and> nsec t < 1000000000)))"
proof -
  have a: "API_Import env api req =
     (case validate api apiImport of
        Some err \<Rightarrow> (Some (Wrapped err ''validating api method''), api)
      | None \<Rightarrow>
       (case indexField api (ImportRequest.Index req) (ImportRequest.Field req)
               (ImportRequest.Slice req) of
          Inl err \<Rightarrow> (Some (Wrapped err ''getting field''), api)
        | Inr (idx, fld) \<Rightarrow>
            (errors_Wrap
               (outcome env (FieldImport (f_path fld) (RowIDs req) (ImportRequest.ColumnIDs req)
                               (map timestampToTime (Timestamps req))))
               ''importing'',
             api\<lparr>performed := performed api @
                   [FieldImport (f_path fld) (RowIDs req) (ImportRequest.ColumnIDs req)
                      (map timestampToTime (Timestamps req))]\<rparr>)))"
    by (simp add: API_Import_def convertTimestamps_map perform_simp Let_def
        split: option.splits sum.splits)
  have b: "\<forall>i < length (Timestamps req).
      (Timestamps req ! i = 0 \<longrightarrow> map timestampToTime (Timestamps req) ! i = None) \<and>
      (Timestamps req ! i \<noteq> 0 \<longrightarrow>
         (\<exists>t. map timestampToTime (Timestamps req) ! i = Some t \<and>
              UnixNano t = sint (Timestamps req ! i) \<and> 0 \<le> nsec t \<and> nsec t < 1000000000))"
    using time_Unix_nanos by (simp add: timestampToTime_def)
  from a b show ?thesis by simp
qed

theorem Import_converts_timestamps_witness:
  "API_Import env0 (api1 ''NORMAL'') req0 =
     (None, (api1 ''NORMAL'')\<lparr>performed :=
        [FieldImport ''data/i/f1'' [1, 2, 3] [5, 9, 11]
           [None, Some \<lparr>sec = 1500000000, nsec = 1\<rparr>, Some \<lparr>sec = - 1, nsec = 999999999\<rparr>]]\<rparr>)"
proof -
  have i: "indexField (api1 ''NORMAL'') (ImportRequest.Index req0) (ImportRequest.Field req0)
             (ImportRequest.Slice req0) = Inr (index0, field0 ''i'' ''f1'')"
    by (simp add: indexField_def ownsSlice_def LocalID_def api1_def cluster0_def req0_def
        Holder_Index_def Index_Field_def Index_field_def index0_def)
  have c: "map timestampToTime (Timestamps req0) =
             [None, Some \<lparr>sec = 1500000000, nsec = 1\<rparr>, Some \<lparr>sec = - 1, nsec = 999999999\<rparr>]"
    by (simp add: req0_def timestampToTime_def time_Unix_def go_quot_def)
  have p: "performed (api1 ''NORMAL'') = []" "f_path (field0 ''i'' ''f1'') = ''data/i/f1''"
    "RowIDs req0 = [1, 2, 3]" "ImportRequest.ColumnIDs req0 = [5, 9, 11]"
    by (simp_all add: api1_def field0_def req0_def)
  from Import_converts_timestamps[of env0 "api1 ''NORMAL''" req0] validate_api1_Normal(7) i
  show ?thesis by (simp add: c p env0_def errors_Wrap_def)
qed

subsection \<open>Attribute diff\<close>


lemma copyBlocks_succeeds:
  "(\<forall>b \<in> set ids. \<exists>m. BlockData store b = Inr m) \<Longrightarrow>
     \<exists>attrs. copyBlocks store ids acc = Inr attrs"
  by (induction ids arbitrary: acc) auto





















subsection \<open>The registry stays well-formed\<close>

text \<open>
  The registry of a new index is well-formed, and \<open>createField\<close> and \<open>DeleteField\<close> keep
  it so: the hypothesis of the order-independence of \<open>Fields\<close> holds of every registry
  these operations build.
\<close>

lemma list_all_update:
  "P (k, v) \<Longrightarrow> list_all P al \<Longrightarrow> list_all P (AList.update k v al)"
  by (induction al) auto

lemma NewIndex_registry_ok: "NewIndex env p nm = Inr i \<Longrightarrow> registry_ok i"
  by (auto simp: NewIndex_def registry_ok_def split: option.splits)

lemma createField_registry_ok:
  assumes "registry_ok i"
  shows "registry_ok (fst (snd (createField env i nm opt tr)))"
proof (cases "createField env i nm opt tr")
  case (fields r i1 tr1)
  show ?thesis
  proof (cases r)
    case (Inl e)
    with fields have "i1 = i"
      by (auto simp: createField_def perform_simp Let_def
          split: if_splits option.splits sum.splits)
    with fields assms show ?thesis by simp
  next
    case (Inr f)
    with fields have c: "createField env i nm opt tr = (Inr f, i1, tr1)" by simp
    from createField_success[OF c]
    have i1: "i1 = i\<lparr>fieldsByName := AList.update nm f (fieldsByName i)\<rparr>"
      and n: "Field_Name f = nm" by (simp_all add: Field_Name_def)
    from assms n show ?thesis
      unfolding fields i1 registry_ok_def
      by (simp add: distinct_update list_all_update)
  qed
qed

lemma DeleteField_registry_ok:
  assumes "registry_ok i"
  shows "registry_ok (fst (snd (Index_DeleteField env i nm tr)))"
proof -
  have s: "set (AList.delete nm (fieldsByName i)) \<subseteq> set (fieldsByName i)"
    by (auto simp: AList.delete_eq)
  have "registry_ok (i\<lparr>fieldsByName := AList.delete nm (fieldsByName i)\<rparr>)"
    using assms s
    by (auto simp: registry_ok_def distinct_delete list_all_iff)
  with assms show ?thesis
    by (auto simp: Index_DeleteField_def perform_simp split: option.splits)
qed

end
